theory Spec2Isabelle
  imports Main "HOL-Library.AList" "HOL-Library.Sublist"
begin

section \<open>Values and dictionaries of the stage specification\<close>

text \<open>
  A stage specification is a loosely typed Python dictionary loaded from YAML. Its values
  are modelled by \<open>jval\<close>: \<open>None\<close>, booleans, integers, strings, lists and dictionaries;
  tuples arise only where request assembly builds them.
  A dictionary is an association list in insertion order whose keys are distinct; a lookup
  is \<open>map_of\<close>, an assignment \<open>d[k] = v\<close> is \<open>AList.update\<close> (it keeps the position of an
  existing key and appends a new one) and \<open>d.pop(k, default)\<close> removes the key with
  \<open>AList.delete\<close>.
\<close>

datatype jval =
    JNone
  | JBool bool
  | JInt int
  | JStr string
  | JList "jval list"
  | JTuple "jval list"
  | JDict "(string \<times> jval) list"

type_synonym jdict = "(string \<times> jval) list"

text \<open>\<open>k in d\<close>\<close>

definition dict_has :: "(string \<times> 'v) list \<Rightarrow> string \<Rightarrow> bool" where
  "dict_has d k = (map_of d k \<noteq> None)"

text \<open>\<open>d.get(k, None)\<close> and \<open>d.pop(k, None)\<close> read as a value: a missing key is \<open>None\<close>.\<close>

definition get_or_none :: "jdict \<Rightarrow> string \<Rightarrow> jval" where
  "get_or_none d k = (case map_of d k of None \<Rightarrow> JNone | Some v \<Rightarrow> v)"

text \<open>Python truthiness, as used by \<open>if x:\<close>.\<close>

fun truthy :: "jval \<Rightarrow> bool" where
  "truthy JNone = False"
| "truthy (JBool b) = b"
| "truthy (JInt n) = (n \<noteq> 0)"
| "truthy (JStr s) = (s \<noteq> [])"
| "truthy (JList xs) = (xs \<noteq> [])"
| "truthy (JTuple xs) = (xs \<noteq> [])"
| "truthy (JDict d) = (d \<noteq> [])"

text \<open>The part of \<open>TestConfig\<close> that the request and response plugins read.\<close>

record test_config =
  variables :: jdict
  follow_redirects :: "bool option"

section \<open>Errors and collaborators\<close>

text \<open>
  Every exception that the modelled code raises, or lets through from a collaborator, is a
  value. \<open>DuplicateCookieError\<close> has two messages in the source; the payload keeps which.
\<close>

datatype cookie_dup =
    Override_multiple
  | Redefined "jval list" jdict

text \<open>
  A verification error is the call \<open>self._adderr(msg, *args)\<close> before the \<open>%\<close>
  formatting: the template and its arguments. \<open>Indented_json body\<close> is the argument
  \<open>indent_err_text(json.dumps(body))\<close>.
\<close>

datatype fmt_arg =
    Plain jval
  | Indented_json jval

datatype verr = Verr string "fmt_arg list"

datatype exn =
    BadSchemaError string
  | MissingFormatError
  | UnexpectedKeysError "string list"
  | KeyError string
  | TypeError
  | ValueError
  | MissingCookieError "jval list" "(string \<times> string) list"
  | DuplicateCookieError cookie_dup
  | AttributeError
  | OSError
  | ExtFunctionError
  | RequestException
  | RestRequestException
  | MisplacedExtBlockException string
  | TestFailError "verr list"

text \<open>
  The session owns the cookie jar. The jar is the \<open>requests\<close> library's; the code
  reaches it through four operations, which are parameters of the model, with the other
  collaborators that are not part of the plugin: variable substitution (\<open>None\<close> when a
  placeholder is unresolved), the table of HTTP methods, file-spec resolution,
  \<open>$ext\<close> resolution, \<open>quote_plus(json.dumps(v))\<close>, \<open>open\<close>,
  \<open>get_file_arguments\<close>, \<open>str\<close> and the transport \<open>session.request\<close>, which may
  change the session and either returns a response or raises.
\<close>

record 'jar session =
  cookies :: 'jar

record ('jar, 'resp) request_env =
  format_keys :: "jval \<Rightarrow> jdict \<Rightarrow> jval option"
  valid_http_methods :: "jval list"
  guess_filespec :: "jval \<Rightarrow> test_config \<Rightarrow> (jval list \<times> jval) option"
  update_from_ext :: "jdict \<Rightarrow> string list \<Rightarrow> jdict option"
  quote_plus_json :: "jval \<Rightarrow> string"
  get_dict :: "'jar \<Rightarrow> (string \<times> string) list"
  dict_from_cookiejar :: "'jar \<Rightarrow> (string \<times> string) list"
  cookiejar_from_dict :: "(string \<times> string) list \<Rightarrow> 'jar"
  clear_session_cookies :: "'jar \<Rightarrow> 'jar"
  open_rb :: "jval \<Rightarrow> jval option"
  get_file_arguments :: "jdict \<Rightarrow> test_config \<Rightarrow> jdict option"
  py_str :: "jval \<Rightarrow> string"
  session_request :: "'jar session \<Rightarrow> jdict \<Rightarrow> (exn + 'resp) \<times> 'jar session"

section \<open>Cookie negotiation\<close>

text \<open>
  Modelled from the spec: \<open>deep_dict_merge\<close> of \<open>tavern._core.dict_util\<close> is not among
  the sources. The spec has the second dictionary merged into the first with its values
  taking precedence on a key collision. Both callers pass a first dictionary without
  nested dictionaries (the status-code default, the cookies read from the jar), where a
  recursive merge and this one agree.
\<close>

definition deep_dict_merge :: "jdict \<Rightarrow> jdict \<Rightarrow> jdict" where
  "deep_dict_merge initial_dct merge_dct =
     foldl (\<lambda>dct (k, v). AList.update k v dct) initial_dct merge_dct"

text \<open>Iterating a value: a list gives its items, a dictionary its keys, a string its
  characters; anything else is not iterable.\<close>

fun iterate :: "jval \<Rightarrow> jval list option" where
  "iterate (JList xs) = Some xs"
| "iterate (JTuple xs) = Some xs"
| "iterate (JDict d) = Some (map (\<lambda>(k, v). JStr k) d)"
| "iterate (JStr s) = Some (map (\<lambda>c. JStr [c]) s)"
| "iterate v = None"

fun is_dict :: "jval \<Rightarrow> bool" where
  "is_dict (JDict d) = True"
| "is_dict v = False"

fun hashable :: "jval \<Rightarrow> bool" where
  "hashable (JList xs) = False"
| "hashable (JDict d) = False"
| "hashable (JTuple xs) = list_all hashable xs"
| "hashable v = True"

text \<open>\<open>x in d\<close> for a dictionary with string keys: only a string can be a key.\<close>

fun in_keys :: "jval \<Rightarrow> (string \<times> 'v) list \<Rightarrow> bool" where
  "in_keys (JStr n) d = dict_has d n"
| "in_keys v d = False"

fun items_of :: "jval \<Rightarrow> jdict" where
  "items_of (JDict d) = d"
| "items_of v = []"

text \<open>\<open>partition(pred, iterable)\<close>: the items failing \<open>pred\<close>, then those passing.\<close>

definition partition_by :: "('a \<Rightarrow> bool) \<Rightarrow> 'a list \<Rightarrow> 'a list \<times> 'a list" where
  "partition_by pred iterable = (filter (\<lambda>x. \<not> pred x) iterable, filter pred iterable)"

text \<open>
  \<open>{c: existing_cookies.get(c) for c in expected}\<close>. It is reached only after the
  missing-cookie check, when every item of \<open>expected\<close> is a string naming a cookie of the
  session; the other branches are there for totality.
\<close>

definition from_cookiejar_of :: "(string \<times> string) list \<Rightarrow> jval list \<Rightarrow> jdict" where
  "from_cookiejar_of existing_cookies expected =
     foldl (\<lambda>d c. case c of
                JStr n \<Rightarrow>
                  AList.update n
                    (case map_of existing_cookies n of Some v \<Rightarrow> JStr v | None \<Rightarrow> JNone) d
              | _ \<Rightarrow> d)
       [] expected"

text \<open>
  \<open>_read_expected_cookies(session, rspec, test_block_config)\<close>. The result \<open>None\<close>
  means that all cookies of the session are sent, \<open>Some []\<close> that none is.
\<close>

definition read_expected_cookies ::
  "('jar, 'resp) request_env \<Rightarrow> 'jar session \<Rightarrow> jdict \<Rightarrow> test_config \<Rightarrow> exn + jdict option"
where
  "read_expected_cookies env session rspec test_block_config =
     (let existing_cookies = get_dict env (cookies session) in
      case format_keys env (get_or_none rspec ''cookies'') (variables test_block_config) of
        None \<Rightarrow> Inl MissingFormatError
      | Some cookies_to_use \<Rightarrow>
          if cookies_to_use = JNone then Inr None
          else if cookies_to_use = JList [] \<or> cookies_to_use = JDict [] then Inr (Some [])
          else
            (case iterate cookies_to_use of
               None \<Rightarrow> Inl TypeError
             | Some iterable \<Rightarrow>
                 (let (expected, extra) = partition_by is_dict iterable in
                  if \<not> list_all hashable expected then Inl TypeError
                  else
                    (let missing = filter (\<lambda>c. \<not> in_keys c existing_cookies) expected in
                     if missing \<noteq> [] then Inl (MissingCookieError expected existing_cookies)
                     else
                       (let from_extra =
                              foldl (\<lambda>d (k, v). AList.update k v d) []
                                (concat (map items_of extra)) in
                        if length extra \<noteq> length from_extra
                        then Inl (DuplicateCookieError Override_multiple)
                        else
                          (let overwritten = filter (\<lambda>i. in_keys i from_extra) expected in
                           if overwritten \<noteq> []
                           then Inl (DuplicateCookieError (Redefined overwritten from_extra))
                           else
                             (let from_cookiejar = from_cookiejar_of existing_cookies expected
                              in Inr (Some (deep_dict_merge from_cookiejar from_extra)))))))))"

section \<open>Redirect policy\<close>

text \<open>
  \<open>_check_allow_redirects(rspec, test_block_config)\<close>. The function pops
  \<open>follow_redirects\<close> from \<open>rspec\<close>, so the model returns the flag together with the
  updated dictionary.
\<close>

definition check_allow_redirects :: "jdict \<Rightarrow> test_config \<Rightarrow> jval \<times> jdict" where
  "check_allow_redirects rspec test_block_config =
     (let allow_redirects = JBool False;
          global_follow_redirects = follow_redirects test_block_config;
          allow_redirects =
            (case global_follow_redirects of
               Some g \<Rightarrow> JBool g
             | None \<Rightarrow> allow_redirects);
          test_follow_redirects = get_or_none rspec ''follow_redirects'';
          rspec = AList.delete ''follow_redirects'' rspec;
          allow_redirects =
            (if test_follow_redirects \<noteq> JNone then test_follow_redirects
             else allow_redirects)
      in (allow_redirects, rspec))"

section \<open>Request assembly\<close>

text \<open>\<open>str.lower()\<close> on the ASCII letters; other bytes are left as they are.\<close>

fun lower_char :: "char \<Rightarrow> char" where
  "lower_char (Char b0 b1 b2 b3 b4 b5 b6 b7) =
     (let n = (of_char (Char b0 b1 b2 b3 b4 b5 b6 b7) :: nat)
      in if 65 \<le> n \<and> n \<le> 90 then Char b0 b1 b2 b3 b4 True b6 b7
         else Char b0 b1 b2 b3 b4 b5 b6 b7)"

definition lower :: "string \<Rightarrow> string" where
  "lower s = map lower_char s"

text \<open>\<open>sep.join(xs)\<close>\<close>

fun join :: "string \<Rightarrow> string list \<Rightarrow> string" where
  "join sep [] = []"
| "join sep [x] = x"
| "join sep (x # y # ys) = x @ sep @ join sep (y # ys)"

definition bind_exn :: "exn + 'a \<Rightarrow> ('a \<Rightarrow> exn + 'b) \<Rightarrow> exn + 'b" where
  "bind_exn m f = (case m of Inl e \<Rightarrow> Inl e | Inr x \<Rightarrow> f x)"

definition content_keys :: "string list" where
  "content_keys = [''data'', ''json'', ''files'', ''file_body'']"

definition optional_in_file :: "string list" where
  "optional_in_file = [''json'', ''data'', ''params'', ''headers'', ''files'', ''timeout'', ''cert'']"

definition content_error :: "string list \<Rightarrow> exn" where
  "content_error in_request =
     BadSchemaError
       (''Can only specify one type of request data in HTTP request (tried to send ''
        @ join '' and '' in_request @ '')'')"

text \<open>\<open>{k.lower(): v for k, v in headers.items()}\<close>\<close>

definition normalise_headers :: "jdict \<Rightarrow> jdict" where
  "normalise_headers headers = foldl (\<lambda>d (k, v). AList.update (lower k) v d) [] headers"

text \<open>\<open>tuple(v)\<close>\<close>

definition py_tuple :: "jval \<Rightarrow> exn + jval" where
  "py_tuple v = (case iterate v of None \<Rightarrow> Inl TypeError | Some xs \<Rightarrow> Inr (JTuple xs))"

fun is_list :: "jval \<Rightarrow> bool" where
  "is_list (JList xs) = True"
| "is_list v = False"

fun is_str :: "jval \<Rightarrow> bool" where
  "is_str (JStr s) = True"
| "is_str v = False"

text \<open>An update of the nested dictionary \<open>fspec["headers"]\<close>.\<close>

definition update_headers :: "(jdict \<Rightarrow> jdict) \<Rightarrow> jdict \<Rightarrow> exn + jdict" where
  "update_headers f fspec =
     (case map_of fspec ''headers'' of
        None \<Rightarrow> Inl (KeyError ''headers'')
      | Some (JDict headers) \<Rightarrow> Inr (AList.update ''headers'' (JDict (f headers)) fspec)
      | Some v \<Rightarrow> Inl TypeError)"

text \<open>
  The \<open>file_body\<close> block of \<open>get_request_args\<close>: the content type and the content
  encoding inferred for the file are written into the headers of the formatted spec unless
  the user gave one.
\<close>

definition infer_file_body ::
  "('jar, 'resp) request_env \<Rightarrow> jdict \<Rightarrow> test_config \<Rightarrow> jval \<Rightarrow> jval \<Rightarrow> exn + jdict" where
  "infer_file_body env fspec test_block_config content_header encoding_header =
     (let filename = get_or_none fspec ''file_body'' in
      if truthy filename then
        (case guess_filespec env filename test_block_config of
           None \<Rightarrow> Inl OSError
         | Some (file_spec, group_name) \<Rightarrow>
             bind_exn
               (let fspec = AList.update ''file_body'' filename fspec in
                if length file_spec \<ge> 3 \<and> \<not> truthy content_header
                then update_headers (AList.update ''content-type'' (file_spec ! 2)) fspec
                else Inr fspec)
               (\<lambda>fspec.
                  if length file_spec = 4 \<and> \<not> truthy encoding_header
                  then update_headers
                         (\<lambda>headers. foldl (\<lambda>d (k, v). AList.update k v d) headers
                                       (items_of (file_spec ! 3))) fspec
                  else Inr fspec))
      else Inr fspec)"

text \<open>The local function \<open>add_request_args(keys, optional)\<close>.\<close>

fun add_request_args :: "jdict \<Rightarrow> jdict \<Rightarrow> string list \<Rightarrow> bool \<Rightarrow> exn + jdict" where
  "add_request_args fspec request_args [] optional = Inr request_args"
| "add_request_args fspec request_args (key # keys) optional =
     (case map_of fspec key of
        Some v \<Rightarrow> add_request_args fspec (AList.update key v request_args) keys optional
      | None \<Rightarrow>
          if optional \<or> dict_has request_args key
          then add_request_args fspec request_args keys optional
          else Inl (KeyError key))"

text \<open>Nested JSON in \<open>params\<close> is url-encoded; an \<open>$ext\<close> block is left alone.\<close>

definition encode_params :: "('jar, 'resp) request_env \<Rightarrow> jdict \<Rightarrow> exn + jdict" where
  "encode_params env request_args =
     (case map_of request_args ''params'' of
        None \<Rightarrow> Inr request_args
      | Some (JDict params) \<Rightarrow>
          Inr (AList.update ''params''
                 (JDict (map (\<lambda>(key, value).
                            if \<not> is_str value \<and> key = ''$ext'' then (key, value)
                            else if is_dict value
                            then (key, JStr (quote_plus_json env value))
                            else (key, value)) params))
                 request_args)
      | Some v \<Rightarrow> Inl AttributeError)"

definition copy_if_present :: "string \<Rightarrow> jdict \<Rightarrow> jdict \<Rightarrow> jdict" where
  "copy_if_present key fspec request_args =
     (case map_of fspec key of
        None \<Rightarrow> request_args
      | Some v \<Rightarrow> AList.update key v request_args)"

text \<open>
  The second half of \<open>get_request_args\<close>, from the substitution of variables on: it
  reads the (already updated) \<open>rspec\<close> and builds the request arguments from the formatted
  copy. Substitution returns a fresh dictionary, so nothing here writes to \<open>rspec\<close>.
  Logging and the advisory warning for a body on GET, HEAD or OPTIONS leave the returned
  value as it is and are left out.
\<close>

definition collect_request_args ::
  "('jar, 'resp) request_env \<Rightarrow> jdict \<Rightarrow> test_config \<Rightarrow> jval \<Rightarrow> jval \<Rightarrow> exn + jdict" where
  "collect_request_args env rspec test_block_config content_header encoding_header =
     (case format_keys env (JDict rspec) (variables test_block_config) of
        None \<Rightarrow> Inl MissingFormatError
      | Some (JDict fspec) \<Rightarrow>
          (case map_of fspec ''method'' of
             None \<Rightarrow> Inl (KeyError ''method'')
           | Some method \<Rightarrow>
               if method \<notin> set (valid_http_methods env)
               then Inl (BadSchemaError (''Unknown HTTP method '' @ py_str env method))
               else
                 bind_exn (infer_file_body env fspec test_block_config
                             content_header encoding_header) (\<lambda>fspec.
                 bind_exn (add_request_args fspec [] [''file_body''] True) (\<lambda>request_args.
                 bind_exn (add_request_args fspec request_args [''method'', ''url''] False)
                   (\<lambda>request_args.
                 bind_exn (add_request_args fspec request_args optional_in_file True)
                   (\<lambda>request_args.
                 bind_exn
                   (if dict_has fspec ''auth''
                    then bind_exn (py_tuple (get_or_none fspec ''auth''))
                           (\<lambda>t. Inr (AList.update ''auth'' t request_args))
                    else Inr request_args) (\<lambda>request_args.
                 bind_exn
                   (if dict_has fspec ''cert'' \<and> is_list (get_or_none fspec ''cert'')
                    then bind_exn (py_tuple (get_or_none fspec ''cert''))
                           (\<lambda>t. Inr (AList.update ''cert'' t request_args))
                    else Inr request_args) (\<lambda>request_args.
                 bind_exn
                   (if dict_has fspec ''timeout'' \<and> is_list (get_or_none fspec ''timeout'')
                    then bind_exn (py_tuple (get_or_none fspec ''timeout''))
                           (\<lambda>t. Inr (AList.update ''timeout'' t request_args))
                    else Inr request_args) (\<lambda>request_args.
                 bind_exn (encode_params env request_args) (\<lambda>request_args.
                 Inr (copy_if_present ''stream'' fspec
                        (copy_if_present ''verify'' fspec request_args)))))))))))
      | Some v \<Rightarrow> Inl TypeError)"

text \<open>
  \<open>get_request_args(rspec, test_block_config)\<close>. The function writes defaults into
  \<open>rspec\<close> itself, so the model returns the updated \<open>rspec\<close> beside the result, also when
  an exception is raised.
\<close>

definition get_request_args ::
  "('jar, 'resp) request_env \<Rightarrow> jdict \<Rightarrow> test_config \<Rightarrow> (exn + jdict) \<times> jdict" where
  "get_request_args env rspec test_block_config =
     (let rspec = (if \<not> dict_has rspec ''method''
                   then AList.update ''method'' (JStr ''GET'') rspec else rspec);
          rspec = (if \<not> dict_has rspec ''headers''
                   then AList.update ''headers'' (JDict []) rspec else rspec);
          in_request = filter (dict_has rspec) content_keys
      in if length in_request > 1 \<and> set in_request \<noteq> {''data'', ''files''}
         then (Inl (content_error in_request), rspec)
         else
           (case get_or_none rspec ''headers'' of
              JDict headers \<Rightarrow>
                (let normalised_headers = normalise_headers headers;
                     content_header = get_or_none normalised_headers ''content-type'';
                     encoding_header = get_or_none normalised_headers ''content-encoding'';
                     rspec =
                       (if dict_has rspec ''files'' \<and> truthy content_header
                        then AList.update ''headers''
                               (JDict (filter (\<lambda>(i, j). lower i \<noteq> ''content-type'')
                                         normalised_headers)) rspec
                        else rspec)
                 in (collect_request_args env rspec test_block_config
                       content_header encoding_header, rspec))
            | v \<Rightarrow> (Inl AttributeError, rspec)))"

section \<open>Request construction and execution\<close>

text \<open>
  Modelled from the spec: \<open>check_expected_keys\<close> of \<open>tavern._core.dict_util\<close> is not among
  the sources. The constructor's documentation has it raise \<open>UnexpectedKeysError\<close> when
  the stage uses a key outside the expected set.
\<close>

definition check_expected_keys :: "string list \<Rightarrow> jdict \<Rightarrow> exn + unit" where
  "check_expected_keys expected actual =
     (let unexpected = filter (\<lambda>k. k \<notin> set expected) (map fst actual)
      in if unexpected = [] then Inr () else Inl (UnexpectedKeysError unexpected))"

definition expected_request_keys :: "string list" where
  "expected_request_keys =
     [''method'', ''url'', ''headers'', ''data'', ''params'', ''auth'', ''json'', ''verify'',
      ''files'', ''file_body'', ''stream'', ''timeout'', ''cookies'', ''cert'',
      ''follow_redirects'']"

text \<open>
  The constructed request: \<open>self._request_args\<close> and the \<open>file_body\<close> that the closure
  \<open>prepared_request\<close> captured. The closure's own \<open>request_args\<close> has the same keys.
\<close>

record rest_request =
  self_request_args :: jdict
  self_file_body :: jval

text \<open>
  \<open>RestRequest.__init__(session, rspec, test_block_config)\<close>. It may clear the session
  cookies and it pops keys from \<open>rspec\<close>; the session and \<open>rspec\<close> are returned as the
  constructor leaves them. The transport is not called.
\<close>

definition rest_request_init ::
  "('jar, 'resp) request_env \<Rightarrow> 'jar session \<Rightarrow> jdict \<Rightarrow> test_config \<Rightarrow>
   (exn + rest_request) \<times> 'jar session \<times> jdict" where
  "rest_request_init env session rspec test_block_config =
     (let clear = (case map_of rspec ''clear_session_cookies'' of
                     None \<Rightarrow> JBool False | Some v \<Rightarrow> v);
          rspec = AList.delete ''clear_session_cookies'' rspec;
          session = (if truthy clear
                     then session\<lparr>cookies := clear_session_cookies env (cookies session)\<rparr>
                     else session)
      in case check_expected_keys expected_request_keys rspec of
           Inl e \<Rightarrow> (Inl e, session, rspec)
         | Inr u \<Rightarrow>
             (case get_request_args env rspec test_block_config of
                (Inl e, rspec) \<Rightarrow> (Inl e, session, rspec)
              | (Inr request_args, rspec) \<Rightarrow>
                  (case update_from_ext env request_args (optional_in_file @ [''url'']) of
                     None \<Rightarrow> (Inl ExtFunctionError, session, rspec)
                   | Some request_args \<Rightarrow>
                       (let file_body = get_or_none request_args ''file_body'';
                            request_args = AList.delete ''file_body'' request_args
                        in case read_expected_cookies env session rspec test_block_config of
                             Inl e \<Rightarrow> (Inl e, session, rspec)
                           | Inr expected_cookies \<Rightarrow>
                               (let request_args =
                                      (case expected_cookies of
                                         None \<Rightarrow> request_args
                                       | Some c \<Rightarrow>
                                           AList.update ''cookies'' (JDict c) request_args);
                                    (allow_redirects, rspec) =
                                      check_allow_redirects rspec test_block_config;
                                    request_args =
                                      AList.update ''allow_redirects'' allow_redirects
                                        request_args
                                in (Inr \<lparr>self_request_args = request_args, self_file_body = file_body\<rparr>,
                                    session, rspec))))))"

text \<open>
  \<open>_set_cookies_for_request(session, request_args)\<close> is a generator-based context
  manager without \<open>try/finally\<close>. \<open>body\<close> is the code that runs inside the \<open>with\<close>
  block. When it raises, the exception is thrown into the generator at \<open>yield\<close>, the line
  after \<open>yield\<close> is not executed, and the exception goes on to the caller.
\<close>

definition set_cookies_for_request ::
  "('jar, 'resp) request_env \<Rightarrow> 'jar session \<Rightarrow> jdict \<Rightarrow>
   ('jar session \<Rightarrow> (exn + 'a) \<times> 'jar session) \<Rightarrow> (exn + 'a) \<times> 'jar session" where
  "set_cookies_for_request env session request_args body =
     (if dict_has request_args ''cookies'' then
        (let old_cookies = dict_from_cookiejar env (cookies session);
             session = session\<lparr>cookies := cookiejar_from_dict env []\<rparr>
         in case body session of
              (Inr r, session) \<Rightarrow>
                (Inr r, session\<lparr>cookies := cookiejar_from_dict env old_cookies\<rparr>)
            | (Inl e, session) \<Rightarrow> (Inl e, session))
      else body session)"

text \<open>\<open>headers[str(k)] = str(v)\<close> for every header of the request arguments.\<close>

definition stringify_headers :: "('jar, 'resp) request_env \<Rightarrow> jdict \<Rightarrow> exn + jdict" where
  "stringify_headers env args =
     (case map_of args ''headers'' of
        None \<Rightarrow> Inr args
      | Some (JDict headers) \<Rightarrow>
          Inr (AList.update ''headers''
                 (JDict (map (\<lambda>(k, v). (k, JStr (py_str env v))) headers)) args)
      | Some v \<Rightarrow> Inl AttributeError)"

text \<open>
  The arguments that \<open>prepared_request\<close> passes to the transport: the opened file as
  \<open>data\<close>, or else the multipart files, then the headers as strings.
\<close>

definition transport_args ::
  "('jar, 'resp) request_env \<Rightarrow> test_config \<Rightarrow> rest_request \<Rightarrow> exn + jdict" where
  "transport_args env test_block_config self =
     bind_exn
       (if truthy (self_file_body self) then
          (case open_rb env (self_file_body self) of
             None \<Rightarrow> Inl OSError
           | Some file \<Rightarrow> Inr (AList.update ''data'' file (self_request_args self)))
        else
          (case get_file_arguments env (self_request_args self) test_block_config of
             None \<Rightarrow> Inl OSError
           | Some files \<Rightarrow>
               Inr (if files \<noteq> []
                    then foldl (\<lambda>d (k, v). AList.update k v d) (self_request_args self) files
                    else self_request_args self)))
       (stringify_headers env)"

text \<open>The closure \<open>prepared_request()\<close> of the constructor.\<close>

definition prepared_request ::
  "('jar, 'resp) request_env \<Rightarrow> test_config \<Rightarrow> rest_request \<Rightarrow> 'jar session \<Rightarrow>
   (exn + 'resp) \<times> 'jar session" where
  "prepared_request env test_block_config self session =
     set_cookies_for_request env session (self_request_args self)
       (\<lambda>session.
          case transport_args env test_block_config self of
            Inl e \<Rightarrow> (Inl e, session)
          | Inr args \<Rightarrow> session_request env session args)"

text \<open>\<open>RestRequest.run()\<close>: a transport failure is wrapped.\<close>

definition run ::
  "('jar, 'resp) request_env \<Rightarrow> test_config \<Rightarrow> rest_request \<Rightarrow> 'jar session \<Rightarrow>
   (exn + 'resp) \<times> 'jar session" where
  "run env test_block_config self session =
     (case prepared_request env test_block_config self session of
        (Inl RequestException, session) \<Rightarrow> (Inl RestRequestException, session)
      | (r, session) \<Rightarrow> (r, session))"

section \<open>Response construction and verification\<close>

text \<open>
  What the verifier reads of a \<open>requests.Response\<close>: the status code, the headers (a
  case-insensitive dictionary of strings), the result of \<open>response.json()\<close>, with \<open>None\<close>
  when it raises \<open>ValueError\<close>, and the names of the cookies.
\<close>

record http_response =
  response_status_code :: jval
  response_headers :: jdict
  response_json :: "jval option"
  response_cookies :: "string list"

text \<open>The state of a \<open>RestResponse\<close>: \<open>self.expected\<close> and \<open>self.errors\<close>.\<close>

record rest_response =
  self_expected :: jdict
  self_errors :: "verr list"

text \<open>
  The collaborators of the verifier that are not part of the plugin: the conversion
  \<open>int(s)\<close> of a string (\<open>None\<close> for \<open>ValueError\<close>), the keys of the table \<open>_codes\<close> of
  \<open>requests\<close>, and \<open>urlparse\<close> with \<open>parse_qs\<close>, giving the first value of every query
  parameter of a URL.

  Modelled from the spec: the methods of \<open>BaseResponse\<close> and the hook caller are not among
  the sources. The spec has a recursive structural match, parameterised by the strictness
  of the block, the external validators and the extraction of saved values record their
  failures as accumulated errors; here each returns the errors it records. The
  response hook either returns (\<open>None\<close>) or raises.
\<close>

record 'strict response_env =
  int_of_str :: "string \<Rightarrow> int option"
  status_codes :: "int list"
  redirect_query_of :: "jval \<Rightarrow> jdict"
  option_for :: "string \<Rightarrow> 'strict"
  recurse_check_key_match :: "jval \<Rightarrow> jval \<Rightarrow> string \<Rightarrow> 'strict \<Rightarrow> verr list"
  after_every_response :: "jdict \<Rightarrow> http_response \<Rightarrow> exn option"
  maybe_run_validate_functions :: "jdict \<Rightarrow> http_response \<Rightarrow> verr list"
  maybe_get_save_values_from_save_block :: "jdict \<Rightarrow> string \<Rightarrow> jval \<Rightarrow> jdict \<times> verr list"
  maybe_get_save_values_from_ext :: "jdict \<Rightarrow> http_response \<Rightarrow> jdict \<times> verr list"

text \<open>
  Modelled from the spec: \<open>_adderr\<close> of \<open>BaseResponse\<close> is not among the sources; an error
  is accumulated, at the end of \<open>self.errors\<close>.
\<close>

definition adderr :: "rest_response \<Rightarrow> verr \<Rightarrow> rest_response" where
  "adderr self e = self\<lparr>self_errors := self_errors self @ [e]\<rparr>"

definition adderrs :: "rest_response \<Rightarrow> verr list \<Rightarrow> rest_response" where
  "adderrs self es = self\<lparr>self_errors := self_errors self @ es\<rparr>"

text \<open>\<open>isinstance(v, int)\<close>, which holds for a Boolean too, and the integer it is.\<close>

fun as_int :: "jval \<Rightarrow> int option" where
  "as_int (JInt i) = Some i"
| "as_int (JBool b) = Some (if b then 1 else 0)"
| "as_int v = None"

definition is_int :: "jval \<Rightarrow> bool" where
  "is_int v = (as_int v \<noteq> None)"

text \<open>
  \<open>a == b\<close>: integers and Booleans are compared as numbers; other values are compared
  structurally.
\<close>

definition py_eq :: "jval \<Rightarrow> jval \<Rightarrow> bool" where
  "py_eq a b =
     (case (as_int a, as_int b) of
        (Some x, Some y) \<Rightarrow> x = y
      | (None, None) \<Rightarrow> a = b
      | _ \<Rightarrow> False)"

text \<open>\<open>int(v)\<close>\<close>

fun py_int :: "(string \<Rightarrow> int option) \<Rightarrow> jval \<Rightarrow> exn + int" where
  "py_int parse (JInt i) = Inr i"
| "py_int parse (JBool b) = Inr (if b then 1 else 0)"
| "py_int parse (JStr s) = (case parse s of None \<Rightarrow> Inl ValueError | Some i \<Rightarrow> Inr i)"
| "py_int parse v = Inl TypeError"

text \<open>
  The local function \<open>check_code\<close> of the constructor. The result is the list of the codes
  for which the warning \<open>Unexpected status code\<close> is logged.
\<close>

definition check_code :: "'strict response_env \<Rightarrow> jval \<Rightarrow> exn + jval list" where
  "check_code env code =
     (case py_int (int_of_str env) code of
        Inl e \<Rightarrow> Inl e
      | Inr i \<Rightarrow> Inr (if i \<notin> set (status_codes env) then [code] else []))"

text \<open>\<open>for code_ in in_file: check_code(code_)\<close>\<close>

fun check_codes :: "'strict response_env \<Rightarrow> jval list \<Rightarrow> exn + jval list" where
  "check_codes env [] = Inr []"
| "check_codes env (code # in_file) =
     (case check_code env code of
        Inl e \<Rightarrow> Inl e
      | Inr w \<Rightarrow>
          (case check_codes env in_file of
             Inl e \<Rightarrow> Inl e
           | Inr ws \<Rightarrow> Inr (w @ ws)))"

text \<open>
  \<open>RestResponse.__init__(session, name, expected, test_block_config)\<close>: the new object
  and the codes warned about, or the exception raised.

  Modelled from the spec: \<open>BaseResponse.__init__\<close> is not among the sources; it keeps the
  expected block it is given and starts with no error.
\<close>

definition rest_response_init ::
  "'strict response_env \<Rightarrow> jdict \<Rightarrow> exn + rest_response \<times> jval list" where
  "rest_response_init env expected =
     (let defaults = [(''status_code'', JInt 200)];
          self = \<lparr> self_expected = deep_dict_merge defaults expected, self_errors = [] \<rparr>
      in case map_of (self_expected self) ''status_code'' of
           None \<Rightarrow> Inl (KeyError ''status_code'')
         | Some in_file \<Rightarrow>
             (case (case in_file of
                      JList codes \<Rightarrow> check_codes env codes
                    | _ \<Rightarrow> check_code env in_file) of
                Inl TypeError \<Rightarrow> Inl (BadSchemaError ''Invalid code'')
              | Inl e \<Rightarrow> Inl e
              | Inr warnings \<Rightarrow> Inr (self, warnings)))"

text \<open>\<open>response.headers[name]\<close>; \<open>None\<close> stands for \<open>KeyError\<close>.\<close>

definition header_lookup :: "jdict \<Rightarrow> string \<Rightarrow> jval option" where
  "header_lookup headers name = map_of (map (\<lambda>(k, v). (lower k, v)) headers) (lower name)"

text \<open>\<open>k in v\<close> for a string \<open>k\<close>.\<close>

fun py_contains :: "string \<Rightarrow> jval \<Rightarrow> exn + bool" where
  "py_contains k (JDict d) = Inr (dict_has d k)"
| "py_contains k (JList xs) = Inr (JStr k \<in> set xs)"
| "py_contains k (JTuple xs) = Inr (JStr k \<in> set xs)"
| "py_contains k (JStr s) = Inr (sublist k s)"
| "py_contains k v = Inl TypeError"

text \<open>\<open>_get_redirect_query_params(response)\<close>\<close>

definition get_redirect_query_params ::
  "'strict response_env \<Rightarrow> rest_response \<Rightarrow> http_response \<Rightarrow> exn + jdict \<times> rest_response"
where
  "get_redirect_query_params env self response =
     (case header_lookup (response_headers response) ''location'' of
        Some redirect_url \<Rightarrow> Inr (redirect_query_of env redirect_url, self)
      | None \<Rightarrow>
          (let save = (case map_of (self_expected self) ''save'' of
                         None \<Rightarrow> JDict [] | Some v \<Rightarrow> v)
           in case py_contains ''redirect_query_params'' save of
                Inl e \<Rightarrow> Inl e
              | Inr False \<Rightarrow> Inr ([], self)
              | Inr True \<Rightarrow>
                  (case save of
                     JDict d \<Rightarrow>
                       Inr ([], adderr self
                                  (Verr ''Wanted to save %s, but there was no redirect url in response''
                                     [Plain (get_or_none d ''redirect_query_params'')]))
                   | _ \<Rightarrow> Inl TypeError)))"

text \<open>
  \<open>_verbose_log_response(response)\<close>. Logging is left out; what remains is its call of
  \<open>_get_redirect_query_params\<close>, which may record an error.
\<close>

definition verbose_log_response ::
  "'strict response_env \<Rightarrow> rest_response \<Rightarrow> http_response \<Rightarrow> exn + rest_response" where
  "verbose_log_response env self response =
     bind_exn (get_redirect_query_params env self response)
       (\<lambda>(redirect_query_params, self). Inr self)"

text \<open>\<open>_check_status_code(status_code, body)\<close>\<close>

definition check_status_code :: "rest_response \<Rightarrow> jval \<Rightarrow> jval \<Rightarrow> exn + rest_response" where
  "check_status_code self status_code body =
     (case map_of (self_expected self) ''status_code'' of
        None \<Rightarrow> Inl (KeyError ''status_code'')
      | Some expected_code \<Rightarrow>
          if (is_int expected_code \<and> py_eq status_code expected_code)
             \<or> (case expected_code of
                   JList codes \<Rightarrow> list_ex (py_eq status_code) codes
                 | _ \<Rightarrow> False)
          then Inr self
          else if is_int status_code \<and> 400 \<le> the (as_int status_code)
                  \<and> the (as_int status_code) < 500
          then Inr (adderr self
                      (Verr ''Status code was %s, expected %s:\<newline>%s''
                         [Plain status_code, Plain expected_code, Indented_json body]))
          else Inr (adderr self
                      (Verr ''Status code was %s, expected %s''
                         [Plain status_code, Plain expected_code])))"

text \<open>
  \<open>_validate_block(blockname, block)\<close>. \<open>pop\<close> removes \<open>$ext\<close> from the expected block,
  which is part of \<open>self.expected\<close>.
\<close>

definition validate_block ::
  "'strict response_env \<Rightarrow> rest_response \<Rightarrow> string \<Rightarrow> jval \<Rightarrow> exn + rest_response" where
  "validate_block env self blockname block =
     bind_exn
       (case get_or_none (self_expected self) blockname of
          JDict d \<Rightarrow>
            if truthy (get_or_none d ''$ext'')
            then Inl (MisplacedExtBlockException blockname)
            else Inr (JDict (AList.delete ''$ext'' d),
                      self\<lparr>self_expected :=
                             AList.update blockname (JDict (AList.delete ''$ext'' d))
                               (self_expected self)\<rparr>)
        | expected_block \<Rightarrow> Inr (expected_block, self))
       (\<lambda>(expected_block, self).
          bind_exn
            (if blockname = ''headers'' \<and> expected_block \<noteq> JNone
             then (case (block, expected_block) of
                     (JDict b, JDict e) \<Rightarrow>
                       Inr (JDict (normalise_headers b), JDict (normalise_headers e))
                   | _ \<Rightarrow> Inl AttributeError)
             else Inr (block, expected_block))
            (\<lambda>(block, expected_block).
               Inr (adderrs self
                      (recurse_check_key_match env expected_block block blockname
                         (option_for env blockname)))))"

text \<open>\<open>cookie not in response.cookies\<close> looks for a name.\<close>

fun cookie_missing :: "jval \<Rightarrow> string list \<Rightarrow> bool" where
  "cookie_missing (JStr n) names = (n \<notin> set names)"
| "cookie_missing v names = True"

text \<open>The loop over \<open>self.expected.get("cookies", [])\<close> at the end of \<open>verify\<close>.\<close>

definition check_cookies :: "rest_response \<Rightarrow> http_response \<Rightarrow> exn + rest_response" where
  "check_cookies self response =
     (case iterate (case map_of (self_expected self) ''cookies'' of
                      None \<Rightarrow> JList [] | Some v \<Rightarrow> v) of
        None \<Rightarrow> Inl TypeError
      | Some expected_cookies \<Rightarrow>
          Inr (adderrs self
                 (map (\<lambda>cookie. Verr ''No cookie named '%s' in response'' [Plain cookie])
                    (filter (\<lambda>cookie. cookie_missing cookie (response_cookies response))
                       expected_cookies))))"

text \<open>\<open>saved.update(d)\<close>\<close>

definition dict_update :: "jdict \<Rightarrow> jdict \<Rightarrow> jdict" where
  "dict_update saved d = foldl (\<lambda>s (k, v). AList.update k v s) saved d"

text \<open>
  \<open>verify(response)\<close>: the saved values, or the exception raised. Attaching the
  response to the report is left out.
\<close>

definition verify ::
  "'strict response_env \<Rightarrow> rest_response \<Rightarrow> http_response \<Rightarrow> exn + jdict" where
  "verify env self response =
     bind_exn (verbose_log_response env self response) (\<lambda>self.
     case after_every_response env (self_expected self) response of
       Some e \<Rightarrow> Inl e
     | None \<Rightarrow>
         (let body = (case response_json response of None \<Rightarrow> JNone | Some b \<Rightarrow> b) in
          bind_exn (get_redirect_query_params env self response)
            (\<lambda>(redirect_query_params, self).
          bind_exn (check_status_code self (response_status_code response) body) (\<lambda>self.
          bind_exn (validate_block env self ''json'' body) (\<lambda>self.
          bind_exn (validate_block env self ''headers'' (JDict (response_headers response)))
            (\<lambda>self.
          bind_exn (validate_block env self ''redirect_query_params''
                      (JDict redirect_query_params)) (\<lambda>self.
          (let self = adderrs self
                        (maybe_run_validate_functions env (self_expected self) response);
               (from_json, errs) =
                  maybe_get_save_values_from_save_block env (self_expected self) ''json'' body;
               self = adderrs self errs;
               saved = dict_update [] from_json;
               (from_headers, errs) =
                  maybe_get_save_values_from_save_block env (self_expected self) ''headers''
                    (JDict (response_headers response));
               self = adderrs self errs;
               saved = dict_update saved from_headers;
               (from_redirect, errs) =
                  maybe_get_save_values_from_save_block env (self_expected self)
                    ''redirect_query_params'' (JDict redirect_query_params);
               self = adderrs self errs;
               saved = dict_update saved from_redirect;
               (from_ext, errs) =
                  maybe_get_save_values_from_ext env (self_expected self) response;
               self = adderrs self errs;
               saved = dict_update saved from_ext
           in bind_exn (check_cookies self response) (\<lambda>self.
              if self_errors self \<noteq> []
              then Inl (TestFailError (self_errors self))
              else Inr saved)))))))))"

section \<open>Example collaborators\<close>

text \<open>
  A concrete environment for evaluating the model: substitution leaves a value without
  placeholders as it is, the jar is its name-to-value dictionary, no file can be opened
  and no \<open>$ext\<close> function is configured. The transport is a parameter:
  \<open>refusing_transport\<close> raises without touching the session, \<open>answering_transport\<close>
  returns a response after storing a cookie that the server set.
\<close>

type_synonym dict_jar = "(string \<times> string) list"

definition refusing_transport ::
  "dict_jar session \<Rightarrow> jdict \<Rightarrow> (exn + nat) \<times> dict_jar session" where
  "refusing_transport s args = (Inl RequestException, s)"

definition answering_transport ::
  "dict_jar session \<Rightarrow> jdict \<Rightarrow> (exn + nat) \<times> dict_jar session" where
  "answering_transport s args =
     (Inr 200, s\<lparr>cookies := AList.update ''served'' ''1'' (cookies s)\<rparr>)"

definition plain_env ::
  "(dict_jar session \<Rightarrow> jdict \<Rightarrow> (exn + nat) \<times> dict_jar session) \<Rightarrow>
   (dict_jar, nat) request_env" where
  "plain_env transport =
     \<lparr> format_keys = (\<lambda>v vars. Some v),
       valid_http_methods =
         map JStr [''GET'', ''PUT'', ''POST'', ''DELETE'', ''PATCH'', ''OPTIONS'', ''HEAD''],
       guess_filespec = (\<lambda>filename cfg. None),
       update_from_ext = (\<lambda>request_args keys. Some request_args),
       quote_plus_json = (\<lambda>v. []),
       get_dict = (\<lambda>jar. jar),
       dict_from_cookiejar = (\<lambda>jar. jar),
       cookiejar_from_dict = (\<lambda>d. d),
       clear_session_cookies = (\<lambda>jar. []),
       open_rb = (\<lambda>path. None),
       get_file_arguments = (\<lambda>request_args cfg. Some []),
       py_str = (\<lambda>v. case v of JStr s \<Rightarrow> s | _ \<Rightarrow> []),
       session_request = transport \<rparr>"

definition plain_config :: test_config where
  "plain_config = \<lparr> variables = [], follow_redirects = None \<rparr>"

text \<open>
  A stage that sends the cookie \<open>session_id\<close> of the session, the request that the
  constructor builds from it, and a session that holds the cookie.
\<close>

definition cookie_stage :: jdict where
  "cookie_stage = [(''url'', JStr ''http://localhost/items''),
                   (''cookies'', JList [JStr ''session_id''])]"

definition cookie_stage_request :: rest_request where
  "cookie_stage_request =
     \<lparr> self_request_args =
         [(''method'', JStr ''GET''), (''url'', JStr ''http://localhost/items''),
          (''headers'', JDict []), (''cookies'', JDict [(''session_id'', JStr ''xyz'')]),
          (''allow_redirects'', JBool False)],
       self_file_body = JNone \<rparr>"

definition xyz_session :: "dict_jar session" where
  "xyz_session = \<lparr> cookies = [(''session_id'', ''xyz'')] \<rparr>"

text \<open>Two stages with two body keys each: \<open>json\<close> with \<open>data\<close>, and \<open>data\<close> with \<open>files\<close>.\<close>

definition json_and_data_stage :: jdict where
  "json_and_data_stage =
     [(''url'', JStr ''http://localhost/items''), (''method'', JStr ''POST''),
      (''json'', JDict [(''a'', JInt 1)]), (''data'', JStr ''a=1'')]"

definition data_and_files_stage :: jdict where
  "data_and_files_stage =
     [(''url'', JStr ''http://localhost/items''), (''method'', JStr ''POST''),
      (''data'', JStr ''a=1''), (''files'', JDict [(''f'', JStr ''report.txt'')])]"

text \<open>
  A stage that asks for redirects to be followed and gives neither a method nor headers.
\<close>

definition redirect_stage :: jdict where
  "redirect_stage = [(''url'', JStr ''http://localhost/items''),
                     (''follow_redirects'', JBool True)]"

text \<open>
  Two multipart uploads that give a content type: one sends only \<open>files\<close>, the other
  sends \<open>json\<close> as well.
\<close>

definition upload_stage :: jdict where
  "upload_stage =
     [(''url'', JStr ''http://localhost/items''), (''method'', JStr ''POST''),
      (''files'', JDict [(''f'', JStr ''report.txt'')]),
      (''headers'', JDict [(''Content-Type'', JStr ''text/plain''),
                           (''Authorization'', JStr ''token'')])]"

definition upload_json_stage :: jdict where
  "upload_json_stage =
     [(''url'', JStr ''http://localhost/items''), (''method'', JStr ''POST''),
      (''files'', JDict [(''f'', JStr ''report.txt'')]),
      (''json'', JDict [(''a'', JInt 1)]),
      (''headers'', JDict [(''Content-Type'', JStr ''text/plain''),
                           (''Authorization'', JStr ''token'')])]"

text \<open>
  A stage that sends the session's cookie \<open>session_id\<close> and overrides \<open>csrf\<close>, and a
  session that holds neither of them.
\<close>

definition missing_cookie_stage :: jdict where
  "missing_cookie_stage =
     [(''url'', JStr ''http://localhost/items''),
      (''cookies'', JList [JStr ''session_id'', JDict [(''csrf'', JStr ''abc'')]])]"

definition other_session :: "dict_jar session" where
  "other_session = \<lparr> cookies = [(''other'', ''1'')] \<rparr>"

text \<open>
  A concrete environment for the verifier: the string \<open>200\<close> is the only one that
  \<open>int\<close> converts, the match primitive reports one error when an expected block is given
  and differs from the actual one, the hook returns, and there are no external validators
  and nothing to save.
\<close>

definition plain_response_env :: "unit response_env" where
  "plain_response_env =
     \<lparr> int_of_str = (\<lambda>s. if s = ''200'' then Some 200 else None),
       status_codes = [200, 204, 301, 404, 500],
       redirect_query_of = (\<lambda>url. []),
       option_for = (\<lambda>blockname. ()),
       recurse_check_key_match =
         (\<lambda>expected_block block blockname strictness.
            if expected_block = JNone \<or> expected_block = block then []
            else [Verr (blockname @ '': expected %s, got %s'')
                    [Plain expected_block, Plain block]]),
       after_every_response = (\<lambda>expected response. None),
       maybe_run_validate_functions = (\<lambda>expected response. []),
       maybe_get_save_values_from_save_block = (\<lambda>expected key to_check. ([], [])),
       maybe_get_save_values_from_ext = (\<lambda>expected response. ([], [])) \<rparr>"

text \<open>A response object that expects the given status code and has no error yet.\<close>

definition expecting :: "jval \<Rightarrow> rest_response" where
  "expecting code = \<lparr> self_expected = [(''status_code'', code)], self_errors = [] \<rparr>"

text \<open>
  An expected block with a status code, a body, a header and a cookie, and a response
  that meets none of them.
\<close>

definition item_expected :: jdict where
  "item_expected =
     [(''status_code'', JInt 200),
      (''json'', JDict [(''id'', JInt 1)]),
      (''headers'', JDict [(''Content-Type'', JStr ''application/json'')]),
      (''cookies'', JList [JStr ''session_id''])]"

definition not_found_response :: http_response where
  "not_found_response =
     \<lparr> response_status_code = JInt 404,
       response_headers = [(''content-type'', JStr ''text/html'')],
       response_json = Some (JDict [(''error'', JStr ''not found'')]),
       response_cookies = [] \<rparr>"

section \<open>Properties\<close>

text \<open>
  C5. Redirect precedence: the resolved \<open>allow_redirects\<close> flag is the per-stage
  \<open>follow_redirects\<close> directive when the stage sets one (a value other than \<open>None\<close>),
  otherwise the global configuration value when that is set, otherwise \<open>False\<close>. The
  equation covers every combination of the directive (absent, null, a value) with the
  global setting (unset, true, false).
\<close>

theorem check_allow_redirects_precedence:
  "fst (check_allow_redirects rspec cfg) =
     (case map_of rspec ''follow_redirects'' of
        Some (JBool b) \<Rightarrow> JBool b
      | Some JNone \<Rightarrow>
          (case follow_redirects cfg of Some g \<Rightarrow> JBool g | None \<Rightarrow> JBool False)
      | Some v \<Rightarrow> v
      | None \<Rightarrow>
          (case follow_redirects cfg of Some g \<Rightarrow> JBool g | None \<Rightarrow> JBool False))"
  by (simp add: check_allow_redirects_def get_or_none_def Let_def
      split: option.split jval.split)

text \<open>
  C7. With a substitution that leaves the directive as it is, cookie negotiation returns
  \<open>None\<close> (send all cookies of the session) when the stage has no \<open>cookies\<close>
  directive, the empty dictionary (send no cookies) for an empty list or mapping, and for
  \<open>["session_id", {"csrf": "abc"}]\<close> against a session holding \<open>session_id=xyz\<close> and no
  \<open>csrf\<close> it returns \<open>{"session_id": "xyz", "csrf": "abc"}\<close> without an error.
\<close>

theorem read_expected_cookies_sentinels_and_scenario:
  assumes fmt: "format_keys env (get_or_none rspec ''cookies'') (variables cfg)
                  = Some (get_or_none rspec ''cookies'')"
  shows "(map_of rspec ''cookies'' = None \<longrightarrow>
            read_expected_cookies env session rspec cfg = Inr None)
       \<and> (map_of rspec ''cookies'' = Some (JList []) \<or> map_of rspec ''cookies'' = Some (JDict [])
            \<longrightarrow> read_expected_cookies env session rspec cfg = Inr (Some []))
       \<and> (map_of rspec ''cookies''
              = Some (JList [JStr ''session_id'', JDict [(''csrf'', JStr ''abc'')]])
          \<and> map_of (get_dict env (cookies session)) ''session_id'' = Some ''xyz''
          \<and> map_of (get_dict env (cookies session)) ''csrf'' = None
            \<longrightarrow> read_expected_cookies env session rspec cfg
                  = Inr (Some [(''session_id'', JStr ''xyz''), (''csrf'', JStr ''abc'')]))"
proof (intro conjI impI)
  assume "map_of rspec ''cookies'' = None"
  then have "get_or_none rspec ''cookies'' = JNone"
    by (simp add: get_or_none_def)
  with fmt show "read_expected_cookies env session rspec cfg = Inr None"
    by (simp add: read_expected_cookies_def)
next
  assume "map_of rspec ''cookies'' = Some (JList []) \<or> map_of rspec ''cookies'' = Some (JDict [])"
  then have "get_or_none rspec ''cookies'' = JList [] \<or> get_or_none rspec ''cookies'' = JDict []"
    by (auto simp: get_or_none_def)
  with fmt show "read_expected_cookies env session rspec cfg = Inr (Some [])"
    by (auto simp: read_expected_cookies_def)
next
  assume a: "map_of rspec ''cookies''
               = Some (JList [JStr ''session_id'', JDict [(''csrf'', JStr ''abc'')]])
             \<and> map_of (get_dict env (cookies session)) ''session_id'' = Some ''xyz''
             \<and> map_of (get_dict env (cookies session)) ''csrf'' = None"
  then have d: "get_or_none rspec ''cookies''
                  = JList [JStr ''session_id'', JDict [(''csrf'', JStr ''abc'')]]"
    by (simp add: get_or_none_def)
  from a fmt show "read_expected_cookies env session rspec cfg
                     = Inr (Some [(''session_id'', JStr ''xyz''), (''csrf'', JStr ''abc'')])"
    by (simp add: read_expected_cookies_def d partition_by_def dict_has_def
        from_cookiejar_of_def deep_dict_merge_def)
qed

theorem read_expected_cookies_sentinels_and_scenario_witness:
  "read_expected_cookies (plain_env refusing_transport) \<lparr>cookies = [(''session_id'', ''xyz'')]\<rparr>
       [(''url'', JStr ''http://localhost/'')] plain_config = Inr None
   \<and> read_expected_cookies (plain_env refusing_transport) \<lparr>cookies = [(''session_id'', ''xyz'')]\<rparr>
       [(''cookies'', JList [])] plain_config = Inr (Some [])
   \<and> read_expected_cookies (plain_env refusing_transport)
       \<lparr>cookies = [(''session_id'', ''xyz''), (''theme'', ''dark'')]\<rparr>
       [(''cookies'', JList [JStr ''session_id'', JDict [(''csrf'', JStr ''abc'')]])] plain_config
       = Inr (Some [(''session_id'', JStr ''xyz''), (''csrf'', JStr ''abc'')])"
  using
    read_expected_cookies_sentinels_and_scenario
      [of "plain_env refusing_transport" "[(''url'', JStr ''http://localhost/'')]" plain_config
          "\<lparr>cookies = [(''session_id'', ''xyz'')]\<rparr>"]
    read_expected_cookies_sentinels_and_scenario
      [of "plain_env refusing_transport" "[(''cookies'', JList [])]" plain_config
          "\<lparr>cookies = [(''session_id'', ''xyz'')]\<rparr>"]
    read_expected_cookies_sentinels_and_scenario
      [of "plain_env refusing_transport"
          "[(''cookies'', JList [JStr ''session_id'', JDict [(''csrf'', JStr ''abc'')]])]"
          plain_config "\<lparr>cookies = [(''session_id'', ''xyz''), (''theme'', ''dark'')]\<rparr>"]
  by (simp add: plain_env_def plain_config_def get_or_none_def)

text \<open>
  C3. The duplicate-override check compares the number of override maps with the number
  of keys of their union. A single override map with two distinct keys is rejected with
  \<open>DuplicateCookieError\<close> although no key is duplicated, and two override maps that share
  the key \<open>a\<close> are accepted when the first has a second key: the later value wins silently.
\<close>

theorem read_expected_cookies_counts_maps_not_keys:
  "read_expected_cookies (plain_env refusing_transport) \<lparr>cookies = []\<rparr>
       [(''cookies'', JList [JDict [(''a'', JStr ''1''), (''b'', JStr ''2'')]])] plain_config
     = Inl (DuplicateCookieError Override_multiple)
   \<and> read_expected_cookies (plain_env refusing_transport) \<lparr>cookies = []\<rparr>
       [(''cookies'', JList [JDict [(''a'', JStr ''1''), (''b'', JStr ''2'')],
                             JDict [(''a'', JStr ''3'')]])] plain_config
     = Inr (Some [(''a'', JStr ''3''), (''b'', JStr ''2'')])"
  by (simp add: read_expected_cookies_def plain_env_def plain_config_def get_or_none_def
      partition_by_def dict_has_def from_cookiejar_of_def deep_dict_merge_def)

text \<open>
  C1, as stated, fails. The stage \<open>cookie_stage\<close> sends the cookie \<open>session_id\<close>; its
  request arguments carry a \<open>cookies\<close> substitution. When the transport raises, the
  session is left with the empty jar that replaced its cookies for the call: the
  context manager has no \<open>try/finally\<close> and says so.
\<close>

theorem run_raising_leaves_jar_replaced:
  "fst (rest_request_init (plain_env refusing_transport) xyz_session cookie_stage plain_config)
     = Inr cookie_stage_request
   \<and> dict_has (self_request_args cookie_stage_request) ''cookies''
   \<and> run (plain_env refusing_transport) plain_config cookie_stage_request xyz_session
       = (Inl RestRequestException, \<lparr>cookies = []\<rparr>)
   \<and> cookies (snd (run (plain_env refusing_transport) plain_config cookie_stage_request
                     xyz_session)) \<noteq> cookies xyz_session"
  by (simp add: rest_request_init_def cookie_stage_def cookie_stage_request_def xyz_session_def
      plain_env_def plain_config_def check_expected_keys_def expected_request_keys_def
      get_request_args_def dict_has_def content_keys_def get_or_none_def normalise_headers_def
      collect_request_args_def infer_file_body_def bind_exn_def optional_in_file_def
      encode_params_def copy_if_present_def read_expected_cookies_def partition_by_def
      from_cookiejar_of_def deep_dict_merge_def check_allow_redirects_def
      run_def prepared_request_def set_cookies_for_request_def transport_args_def
      stringify_headers_def refusing_transport_def)

text \<open>
  C1, amended. For a request whose arguments contain a \<open>cookies\<close> substitution: when the
  call returns a response, the session's jar is the one rebuilt from the name-to-value
  dictionary saved from the jar before the call (the jar before the call, for a jar that
  its name-to-value dictionary determines). When the call raises, the jar is not
  restored: the session is left as the failed call left it, starting from the empty jar
  that replaced the saved one.
\<close>

theorem run_restores_cookies_on_return:
  assumes "dict_has (self_request_args self) ''cookies''"
  shows "case run env cfg self session of
           (Inr response, session') \<Rightarrow>
             cookies session'
               = cookiejar_from_dict env (dict_from_cookiejar env (cookies session))
         | (Inl e, session') \<Rightarrow>
             (case transport_args env cfg self of
                Inl e' \<Rightarrow> session' = session\<lparr>cookies := cookiejar_from_dict env []\<rparr>
              | Inr args \<Rightarrow>
                  session' = snd (session_request env
                                    (session\<lparr>cookies := cookiejar_from_dict env []\<rparr>) args))"
  using assms
  by (auto simp: run_def prepared_request_def set_cookies_for_request_def Let_def
      split: prod.splits sum.splits exn.splits)

theorem run_restores_cookies_on_return_witness:
  "dict_has (self_request_args cookie_stage_request) ''cookies''
   \<and> fst (run (plain_env answering_transport) plain_config cookie_stage_request xyz_session)
       = Inr 200
   \<and> cookies (snd (run (plain_env answering_transport) plain_config cookie_stage_request
                     xyz_session)) = cookies xyz_session"
proof -
  have h: "dict_has (self_request_args cookie_stage_request) ''cookies''"
    by (simp add: cookie_stage_request_def dict_has_def)
  have r: "fst (run (plain_env answering_transport) plain_config cookie_stage_request xyz_session)
             = Inr 200"
    by (simp add: cookie_stage_request_def xyz_session_def plain_env_def plain_config_def
        dict_has_def bind_exn_def run_def prepared_request_def set_cookies_for_request_def
        transport_args_def stringify_headers_def answering_transport_def)
  from run_restores_cookies_on_return [OF h, where env = "plain_env answering_transport"
      and cfg = plain_config and session = xyz_session] r
  have "cookies (snd (run (plain_env answering_transport) plain_config cookie_stage_request
                       xyz_session)) = cookies xyz_session"
    by (auto simp: plain_env_def split: prod.splits sum.splits)
  with h r show ?thesis by simp
qed

subsection \<open>Request assembly: which errors it can raise\<close>

lemma dict_has_update: "dict_has (AList.update k v d) k' = (k' = k \<or> dict_has d k')"
  by (auto simp: dict_has_def update_conv')

lemma bind_not_schema:
  "m \<noteq> Inl (BadSchemaError s) \<Longrightarrow> (\<And>x. f x \<noteq> Inl (BadSchemaError s)) \<Longrightarrow>
   bind_exn m f \<noteq> Inl (BadSchemaError s)"
  by (cases m) (simp_all add: bind_exn_def)

lemma update_headers_not_schema: "update_headers f fspec \<noteq> Inl (BadSchemaError s)"
  by (simp add: update_headers_def split: option.splits jval.splits)

lemma bind_exn_Inl:
  "bind_exn m f = Inl e \<longleftrightarrow> m = Inl e \<or> (\<exists>x. m = Inr x \<and> f x = Inl e)"
  by (cases m) (auto simp: bind_exn_def)

lemma infer_file_body_not_schema:
  "infer_file_body env fspec cfg ch eh \<noteq> Inl (BadSchemaError s)"
  by (simp add: infer_file_body_def Let_def bind_exn_Inl update_headers_not_schema
      split: option.splits prod.splits)

lemma add_request_args_not_schema:
  "add_request_args fspec ra keys opt \<noteq> Inl (BadSchemaError s)"
  by (induction fspec ra keys opt rule: add_request_args.induct) (auto split: option.splits)

lemma py_tuple_not_schema: "py_tuple v \<noteq> Inl (BadSchemaError s)"
  by (simp add: py_tuple_def split: option.splits)

lemma tuple_update_not_schema:
  "(if c then bind_exn (py_tuple v) (\<lambda>t. Inr (g t)) else Inr ra) \<noteq> Inl (BadSchemaError s)"
  by (simp add: bind_exn_Inl py_tuple_not_schema)

lemma encode_params_not_schema: "encode_params env ra \<noteq> Inl (BadSchemaError s)"
  by (simp add: encode_params_def split: option.splits jval.splits)

lemma collect_request_args_schema:
  assumes "collect_request_args env rspec cfg ch eh = Inl (BadSchemaError s)"
  shows "\<exists>m. s = ''Unknown HTTP method '' @ m"
proof (cases "format_keys env (JDict rspec) (variables cfg)")
  case None
  with assms show ?thesis by (simp add: collect_request_args_def)
next
  case (Some v)
  show ?thesis
  proof (cases v)
    case (JDict fspec)
    show ?thesis
    proof (cases "map_of fspec ''method''")
      case None
      with assms Some JDict show ?thesis by (simp add: collect_request_args_def)
    next
      case (Some m)
      show ?thesis
      proof (cases "m \<in> set (valid_http_methods env)")
        case False
        with assms \<open>format_keys env (JDict rspec) (variables cfg) = Some v\<close> JDict Some
        show ?thesis by (auto simp: collect_request_args_def)
      next
        case True
        have "collect_request_args env rspec cfg ch eh \<noteq> Inl (BadSchemaError s)"
          using True \<open>format_keys env (JDict rspec) (variables cfg) = Some v\<close> JDict Some
          apply (simp add: collect_request_args_def del: add_request_args.simps)
          apply (intro bind_not_schema infer_file_body_not_schema add_request_args_not_schema
              tuple_update_not_schema encode_params_not_schema)
          apply simp
          done
        with assms show ?thesis by simp
      qed
    qed
  qed (use assms Some in \<open>simp_all add: collect_request_args_def\<close>)
qed


lemma in_request_defaults:
  "filter (dict_has (if \<not> dict_has r1 ''headers'' then AList.update ''headers'' h r1 else r1))
      content_keys = filter (dict_has r1) content_keys"
  "filter (dict_has (if \<not> dict_has rspec ''method'' then AList.update ''method'' m rspec else rspec))
      content_keys = filter (dict_has rspec) content_keys"
  by (simp_all add: content_keys_def dict_has_update)

lemma get_request_args_rejects:
  assumes "1 < length (filter (dict_has rspec) content_keys)"
    and "set (filter (dict_has rspec) content_keys) \<noteq> {''data'', ''files''}"
  shows "fst (get_request_args env rspec cfg)
           = Inl (content_error (filter (dict_has rspec) content_keys))"
  unfolding get_request_args_def Let_def in_request_defaults
  using assms by (simp only: if_True simp_thms fst_conv)

lemma sublist_join: "k \<in> set xs \<Longrightarrow> sublist k (join sep xs)"
proof (induction sep xs rule: join.induct)
  case (1 sep)
  then show ?case by simp
next
  case (2 sep x)
  then show ?case by simp
next
  case (3 sep x y ys)
  show ?case
  proof (cases "k = x")
    case True
    then show ?thesis by (simp add: sublist_append)
  next
    case False
    with 3 have "sublist k (join sep (y # ys))" by simp
    then show ?thesis by (simp add: sublist_append)
  qed
qed

lemma content_error_names:
  assumes "k \<in> set ks"
  shows "\<exists>msg. content_error ks = BadSchemaError msg \<and> sublist k msg"
proof -
  from assms have "sublist k (join '' and '' ks)" by (rule sublist_join)
  then have "sublist k
      (''Can only specify one type of request data in HTTP request (tried to send ''
         @ join '' and '' ks @ '')'')"
    by (simp only: sublist_append) blast
  then show ?thesis by (simp only: content_error_def) blast
qed

lemma get_request_args_collect:
  assumes "\<not> (1 < length (filter (dict_has rspec) content_keys)
              \<and> set (filter (dict_has rspec) content_keys) \<noteq> {''data'', ''files''})"
  shows "fst (get_request_args env rspec cfg) = Inl AttributeError
         \<or> (\<exists>r ch eh. fst (get_request_args env rspec cfg)
                         = collect_request_args env r cfg ch eh)"
  unfolding get_request_args_def Let_def in_request_defaults
  using assms by (simp only: if_False simp_thms split: jval.split) auto


lemma get_request_args_data_files:
  assumes "set (filter (dict_has rspec) content_keys) = {''data'', ''files''}"
  shows "fst (get_request_args env rspec cfg) \<noteq> Inl (content_error ks)"
proof
  assume e: "fst (get_request_args env rspec cfg) = Inl (content_error ks)"
  from assms get_request_args_collect [of rspec env cfg]
  have "fst (get_request_args env rspec cfg) = Inl AttributeError
        \<or> (\<exists>r ch eh. fst (get_request_args env rspec cfg)
                        = collect_request_args env r cfg ch eh)"
    by simp
  with e obtain r ch eh where
    "collect_request_args env r cfg ch eh = Inl (content_error ks)"
    by (auto simp: content_error_def)
  then have "\<exists>m. ''Can only specify one type of request data in HTTP request (tried to send ''
       @ join '' and '' ks @ '')'' = ''Unknown HTTP method '' @ m"
    unfolding content_error_def by (rule collect_request_args_schema)
  then show False by simp
qed

text \<open>
  C4. When more than one of \<open>data\<close>, \<open>json\<close>, \<open>files\<close>, \<open>file_body\<close> is present in
  the stage and the present keys are not exactly \<open>data\<close> and \<open>files\<close>, request
  assembly raises \<open>BadSchemaError\<close> with the message that joins the present keys, so
  every offending key occurs in the message. When the present keys are exactly \<open>data\<close>
  and \<open>files\<close>, assembly does not raise that error, whatever else it does.
\<close>

theorem get_request_args_body_exclusive:
  "(1 < length (filter (dict_has rspec) content_keys)
      \<and> set (filter (dict_has rspec) content_keys) \<noteq> {''data'', ''files''}
    \<longrightarrow> fst (get_request_args env rspec cfg)
          = Inl (content_error (filter (dict_has rspec) content_keys))
        \<and> (\<forall>k \<in> set (filter (dict_has rspec) content_keys).
             \<exists>msg. fst (get_request_args env rspec cfg) = Inl (BadSchemaError msg)
                   \<and> sublist k msg))
   \<and> (set (filter (dict_has rspec) content_keys) = {''data'', ''files''}
    \<longrightarrow> (\<forall>ks. fst (get_request_args env rspec cfg) \<noteq> Inl (content_error ks)))"
proof (intro conjI impI allI ballI)
  assume a: "1 < length (filter (dict_has rspec) content_keys)
             \<and> set (filter (dict_has rspec) content_keys) \<noteq> {''data'', ''files''}"
  then show r: "fst (get_request_args env rspec cfg)
            = Inl (content_error (filter (dict_has rspec) content_keys))"
    by (intro get_request_args_rejects) (rule conjunct1, assumption, rule conjunct2, assumption)
  fix k assume "k \<in> set (filter (dict_has rspec) content_keys)"
  from content_error_names [OF this] r
  show "\<exists>msg. fst (get_request_args env rspec cfg) = Inl (BadSchemaError msg) \<and> sublist k msg"
    by (simp only:) blast
next
  fix ks
  assume "set (filter (dict_has rspec) content_keys) = {''data'', ''files''}"
  then show "fst (get_request_args env rspec cfg) \<noteq> Inl (content_error ks)"
    by (rule get_request_args_data_files)
qed

lemma in_request_json_and_data:
  "filter (dict_has json_and_data_stage) content_keys = [''data'', ''json'']"
  by (simp add: json_and_data_stage_def content_keys_def dict_has_def)

lemma in_request_data_and_files:
  "filter (dict_has data_and_files_stage) content_keys = [''data'', ''files'']"
  by (simp add: data_and_files_stage_def content_keys_def dict_has_def)

lemma data_json_not_data_files: "set [''data'', ''json''] \<noteq> {''data'', ''files''}"
proof
  assume "set [''data'', ''json''] = {''data'', ''files''}"
  moreover have "''json'' \<in> set [''data'', ''json'']" by simp
  ultimately have "''json'' \<in> {''data'', ''files''}" by (simp only:)
  then show False by simp
qed

lemma content_error_data_json:
  "content_error [''data'', ''json''] = BadSchemaError
     ''Can only specify one type of request data in HTTP request (tried to send data and json)''"
  by (simp add: content_error_def)

theorem get_request_args_body_exclusive_witness:
  "fst (get_request_args (plain_env refusing_transport) json_and_data_stage plain_config)
     = Inl (BadSchemaError
         ''Can only specify one type of request data in HTTP request (tried to send data and json)'')
   \<and> fst (get_request_args (plain_env refusing_transport) data_and_files_stage plain_config)
       \<noteq> Inl (content_error [''data'', ''files''])"
proof (rule conjI)
  have l: "1 < length [''data'', ''json''] \<and> set [''data'', ''json''] \<noteq> {''data'', ''files''}"
    using data_json_not_data_files by simp
  note t = get_request_args_body_exclusive
         [of json_and_data_stage "plain_env refusing_transport" plain_config,
          unfolded in_request_json_and_data]
  from t have "1 < length [''data'', ''json''] \<and> set [''data'', ''json''] \<noteq> {''data'', ''files''}
      \<longrightarrow> fst (get_request_args (plain_env refusing_transport) json_and_data_stage plain_config)
            = Inl (content_error [''data'', ''json''])
          \<and> (\<forall>k \<in> set [''data'', ''json''].
             \<exists>msg. fst (get_request_args (plain_env refusing_transport) json_and_data_stage
                          plain_config) = Inl (BadSchemaError msg) \<and> sublist k msg)"
    by (rule conjunct1)
  from this l have "fst (get_request_args (plain_env refusing_transport) json_and_data_stage plain_config)
            = Inl (content_error [''data'', ''json''])
          \<and> (\<forall>k \<in> set [''data'', ''json''].
             \<exists>msg. fst (get_request_args (plain_env refusing_transport) json_and_data_stage
                          plain_config) = Inl (BadSchemaError msg) \<and> sublist k msg)"
    by (rule mp)
  then have "fst (get_request_args (plain_env refusing_transport) json_and_data_stage plain_config)
            = Inl (content_error [''data'', ''json''])"
    by (rule conjunct1)
  then show "fst (get_request_args (plain_env refusing_transport) json_and_data_stage plain_config)
     = Inl (BadSchemaError
         ''Can only specify one type of request data in HTTP request (tried to send data and json)'')"
    by (simp only: content_error_data_json)
next
  have s: "set [''data'', ''files''] = {''data'', ''files''}"
    by simp
  note t = get_request_args_body_exclusive
         [of data_and_files_stage "plain_env refusing_transport" plain_config,
          unfolded in_request_data_and_files]
  from t have "set [''data'', ''files''] = {''data'', ''files''}
      \<longrightarrow> (\<forall>ks. fst (get_request_args (plain_env refusing_transport) data_and_files_stage
                        plain_config) \<noteq> Inl (content_error ks))"
    by (rule conjunct2)
  from this s have "\<forall>ks. fst (get_request_args (plain_env refusing_transport) data_and_files_stage
                        plain_config) \<noteq> Inl (content_error ks)"
    by (rule mp)
  then show "fst (get_request_args (plain_env refusing_transport) data_and_files_stage plain_config)
       \<noteq> Inl (content_error [''data'', ''files''])"
    by (rule spec)
qed

subsection \<open>Request assembly: what it writes into the stage\<close>

lemma snd_get_request_args:
  "snd (get_request_args env rspec cfg) =
     (let r = (if \<not> dict_has rspec ''method''
               then AList.update ''method'' (JStr ''GET'') rspec else rspec);
          r = (if \<not> dict_has r ''headers'' then AList.update ''headers'' (JDict []) r else r)
      in if 1 < length (filter (dict_has r) content_keys)
            \<and> set (filter (dict_has r) content_keys) \<noteq> {''data'', ''files''}
         then r
         else (case get_or_none r ''headers'' of
                 JDict headers \<Rightarrow>
                   if dict_has r ''files''
                      \<and> truthy (get_or_none (normalise_headers headers) ''content-type'')
                   then AList.update ''headers''
                          (JDict (filter (\<lambda>(i, j). lower i \<noteq> ''content-type'')
                                    (normalise_headers headers))) r
                   else r
               | _ \<Rightarrow> r))"
  by (simp only: get_request_args_def Let_def snd_conv if_distrib [of snd]
      jval.case_distrib [of snd])


lemma headers_rewrite_frame:
  assumes "k \<noteq> ''headers''"
  shows "map_of (if c then r
                 else (case v of
                         JDict h \<Rightarrow> if p h then AList.update ''headers'' (q h) r else r
                       | _ \<Rightarrow> r)) k = map_of r k"
  using assms by (cases c; cases v) (simp_all add: update_conv')

lemma defaults_frame:
  assumes "k \<noteq> ''method''" and "k \<noteq> ''headers''"
  shows "map_of (if \<not> dict_has
                       (if \<not> dict_has rspec ''method''
                        then AList.update ''method'' m rspec else rspec) ''headers''
                 then AList.update ''headers'' h
                        (if \<not> dict_has rspec ''method''
                         then AList.update ''method'' m rspec else rspec)
                 else (if \<not> dict_has rspec ''method''
                       then AList.update ''method'' m rspec else rspec)) k
         = map_of rspec k"
  using assms by (simp add: update_conv')

lemma get_request_args_frame:
  assumes "k \<noteq> ''method''" and "k \<noteq> ''headers''"
  shows "map_of (snd (get_request_args env rspec cfg)) k = map_of rspec k"
  unfolding snd_get_request_args Let_def
  by (simp only: headers_rewrite_frame [OF assms(2)] defaults_frame [OF assms])


lemma defaults_method:
  "map_of (if \<not> dict_has
                       (if \<not> dict_has rspec ''method''
                        then AList.update ''method'' m rspec else rspec) ''headers''
                 then AList.update ''headers'' h
                        (if \<not> dict_has rspec ''method''
                         then AList.update ''method'' m rspec else rspec)
                 else (if \<not> dict_has rspec ''method''
                       then AList.update ''method'' m rspec else rspec)) ''method''
         = Some (case map_of rspec ''method'' of None \<Rightarrow> m | Some v \<Rightarrow> v)"
  by (cases "map_of rspec ''method''") (simp_all add: update_conv' dict_has_def)

lemma get_request_args_method:
  "map_of (snd (get_request_args env rspec cfg)) ''method''
     = Some (case map_of rspec ''method'' of None \<Rightarrow> JStr ''GET'' | Some m \<Rightarrow> m)"
proof -
  have ne: "''method'' \<noteq> ''headers''" by simp
  show ?thesis
    unfolding snd_get_request_args Let_def
    by (simp only: headers_rewrite_frame [OF ne] defaults_method)
qed

lemma no_files_no_rewrite:
  assumes "\<not> pf"
  shows "(if c then r
          else (case v of
                  JDict h \<Rightarrow> if pf \<and> t h then u h else r
                | _ \<Rightarrow> r)) = r"
  using assms by (cases c; cases v) simp_all

lemma defaults_files:
  "dict_has (if \<not> dict_has
                       (if \<not> dict_has rspec ''method''
                        then AList.update ''method'' m rspec else rspec) ''headers''
                 then AList.update ''headers'' h
                        (if \<not> dict_has rspec ''method''
                         then AList.update ''method'' m rspec else rspec)
                 else (if \<not> dict_has rspec ''method''
                       then AList.update ''method'' m rspec else rspec)) ''files''
     = dict_has rspec ''files''"
  by (simp add: dict_has_update)

lemma defaults_headers:
  "map_of (if \<not> dict_has
                       (if \<not> dict_has rspec ''method''
                        then AList.update ''method'' m rspec else rspec) ''headers''
                 then AList.update ''headers'' h
                        (if \<not> dict_has rspec ''method''
                         then AList.update ''method'' m rspec else rspec)
                 else (if \<not> dict_has rspec ''method''
                       then AList.update ''method'' m rspec else rspec)) ''headers''
         = Some (case map_of rspec ''headers'' of None \<Rightarrow> h | Some v \<Rightarrow> v)"
  by (cases "map_of rspec ''headers''") (simp_all add: update_conv' dict_has_def)

lemma get_request_args_headers:
  assumes "\<not> dict_has rspec ''files''"
  shows "map_of (snd (get_request_args env rspec cfg)) ''headers''
     = Some (case map_of rspec ''headers'' of None \<Rightarrow> JDict [] | Some h \<Rightarrow> h)"
  unfolding snd_get_request_args Let_def defaults_files
  by (simp only: no_files_no_rewrite [OF assms] defaults_headers)

lemma rest_request_init_rspec:
  "snd (snd (rest_request_init env session rspec cfg))
     = AList.delete ''clear_session_cookies'' rspec
   \<or> snd (snd (rest_request_init env session rspec cfg))
     = snd (get_request_args env (AList.delete ''clear_session_cookies'' rspec) cfg)
   \<or> snd (snd (rest_request_init env session rspec cfg))
     = AList.delete ''follow_redirects''
         (snd (get_request_args env (AList.delete ''clear_session_cookies'' rspec) cfg))"
  by (simp add: rest_request_init_def Let_def check_allow_redirects_def
      split: sum.split prod.split option.split)

lemma rest_request_init_success_rspec:
  assumes "fst (rest_request_init env session rspec cfg) = Inr r"
  shows "snd (snd (rest_request_init env session rspec cfg))
     = AList.delete ''follow_redirects''
         (snd (get_request_args env (AList.delete ''clear_session_cookies'' rspec) cfg))"
  using assms
  by (auto simp: rest_request_init_def Let_def check_allow_redirects_def
      split: sum.splits prod.splits option.splits if_splits)


lemma rest_request_init_frame:
  assumes "k \<noteq> ''method''" and "k \<noteq> ''headers''"
    and "k \<noteq> ''clear_session_cookies''" and "k \<noteq> ''follow_redirects''"
  shows "map_of (snd (snd (rest_request_init env session rspec cfg))) k = map_of rspec k"
proof -
  have g: "map_of (snd (get_request_args env (AList.delete ''clear_session_cookies'' rspec) cfg)) k
             = map_of rspec k"
    using assms by (simp add: get_request_args_frame delete_conv')
  from rest_request_init_rspec [of env session rspec cfg] show ?thesis
  proof (elim disjE)
    assume "snd (snd (rest_request_init env session rspec cfg))
              = AList.delete ''clear_session_cookies'' rspec"
    with assms show ?thesis by (simp add: delete_conv')
  next
    assume "snd (snd (rest_request_init env session rspec cfg))
              = snd (get_request_args env (AList.delete ''clear_session_cookies'' rspec) cfg)"
    with g show ?thesis by simp
  next
    assume "snd (snd (rest_request_init env session rspec cfg))
              = AList.delete ''follow_redirects''
                  (snd (get_request_args env (AList.delete ''clear_session_cookies'' rspec) cfg))"
    with g assms show ?thesis by (simp add: delete_conv')
  qed
qed

lemma rest_request_init_clear:
  "map_of (snd (snd (rest_request_init env session rspec cfg))) ''clear_session_cookies'' = None"
proof -
  have g: "map_of (snd (get_request_args env (AList.delete ''clear_session_cookies'' rspec) cfg))
             ''clear_session_cookies'' = None"
    by (simp add: get_request_args_frame delete_conv')
  from rest_request_init_rspec [of env session rspec cfg] show ?thesis
  proof (elim disjE)
    assume "snd (snd (rest_request_init env session rspec cfg))
              = AList.delete ''clear_session_cookies'' rspec"
    then show ?thesis by (simp add: delete_conv')
  next
    assume "snd (snd (rest_request_init env session rspec cfg))
              = snd (get_request_args env (AList.delete ''clear_session_cookies'' rspec) cfg)"
    with g show ?thesis by simp
  next
    assume "snd (snd (rest_request_init env session rspec cfg))
              = AList.delete ''follow_redirects''
                  (snd (get_request_args env (AList.delete ''clear_session_cookies'' rspec) cfg))"
    with g show ?thesis by (simp add: delete_conv')
  qed
qed

lemma headers_rewrite_value:
  assumes "map_of r ''headers'' = Some g"
  shows "map_of (if c then r
                 else (case get_or_none r ''headers'' of
                         JDict h \<Rightarrow> if pf \<and> t h then AList.update ''headers'' (JDict (q h)) r
                                    else r
                       | _ \<Rightarrow> r)) ''headers''
         = Some (case g of
                   JDict hs \<Rightarrow> if \<not> c \<and> pf \<and> t hs then JDict (q hs) else g
                 | _ \<Rightarrow> g)"
  using assms by (cases c; cases g) (simp_all add: get_or_none_def update_conv')

lemma get_request_args_headers_value:
  "map_of (snd (get_request_args env rspec cfg)) ''headers''
     = Some (case (case map_of rspec ''headers'' of None \<Rightarrow> JDict [] | Some v \<Rightarrow> v) of
               JDict hs \<Rightarrow>
                 if \<not> (1 < length (filter (dict_has rspec) content_keys)
                        \<and> set (filter (dict_has rspec) content_keys) \<noteq> {''data'', ''files''})
                    \<and> dict_has rspec ''files''
                    \<and> truthy (get_or_none (normalise_headers hs) ''content-type'')
                 then JDict (filter (\<lambda>(i, j). lower i \<noteq> ''content-type'')
                               (normalise_headers hs))
                 else (case map_of rspec ''headers'' of None \<Rightarrow> JDict [] | Some v \<Rightarrow> v)
             | _ \<Rightarrow> (case map_of rspec ''headers'' of None \<Rightarrow> JDict [] | Some v \<Rightarrow> v))"
  unfolding snd_get_request_args Let_def in_request_defaults defaults_files
  by (simp only: headers_rewrite_value [OF defaults_headers])

lemma get_request_args_headers_rewritten:
  assumes "dict_has rspec ''files''"
    and "map_of rspec ''headers'' = Some (JDict hs)"
    and "\<not> (1 < length (filter (dict_has rspec) content_keys)
            \<and> set (filter (dict_has rspec) content_keys) \<noteq> {''data'', ''files''})"
    and "truthy (get_or_none (normalise_headers hs) ''content-type'')"
  shows "map_of (snd (get_request_args env rspec cfg)) ''headers''
     = Some (JDict (filter (\<lambda>(i, j). lower i \<noteq> ''content-type'') (normalise_headers hs)))"
  unfolding get_request_args_headers_value
  using assms by (simp only: option.case jval.case if_True simp_thms)

lemma headers_kept:
  assumes "c \<or> (\<forall>hs. g = JDict hs \<longrightarrow> \<not> t hs)"
  shows "(case g of JDict hs \<Rightarrow> if \<not> c \<and> pf \<and> t hs then q hs else g | _ \<Rightarrow> g) = g"
  using assms by (cases g) auto

lemma get_request_args_headers_kept:
  assumes "(1 < length (filter (dict_has rspec) content_keys)
            \<and> set (filter (dict_has rspec) content_keys) \<noteq> {''data'', ''files''})
         \<or> (\<forall>hs. map_of rspec ''headers'' = Some (JDict hs)
                \<longrightarrow> \<not> truthy (get_or_none (normalise_headers hs) ''content-type''))"
  shows "map_of (snd (get_request_args env rspec cfg)) ''headers''
     = Some (case map_of rspec ''headers'' of None \<Rightarrow> JDict [] | Some h \<Rightarrow> h)"
proof -
  have e: "truthy (get_or_none (normalise_headers []) ''content-type'') = False"
    by (simp add: normalise_headers_def get_or_none_def)
  have "(1 < length (filter (dict_has rspec) content_keys)
            \<and> set (filter (dict_has rspec) content_keys) \<noteq> {''data'', ''files''})
         \<or> (\<forall>hs. (case map_of rspec ''headers'' of None \<Rightarrow> JDict [] | Some v \<Rightarrow> v) = JDict hs
                \<longrightarrow> \<not> truthy (get_or_none (normalise_headers hs) ''content-type''))"
    using assms e by (cases "map_of rspec ''headers''") auto
  from headers_kept [OF this] show ?thesis
    unfolding get_request_args_headers_value by (simp only:)
qed

text \<open>
  C9, amended. Request assembly writes into \<open>rspec\<close>, in these keys only.
  \<open>get_request_args\<close> leaves every key other than \<open>method\<close> and \<open>headers\<close> as it was;
  it keeps a given \<open>method\<close> and sets \<open>GET\<close> when there is none. It keeps given
  \<open>headers\<close>, and sets the empty dictionary when there are none, in each of these cases:
  the stage has no \<open>files\<close>; the body keys are rejected; the headers are a dictionary
  whose lower-cased copy has no \<open>content-type\<close> or a falsy one. When the stage has
  \<open>files\<close>, the body keys are not rejected and the lower-cased copy of the headers has a
  truthy \<open>content-type\<close>, it replaces the headers by that lower-cased copy without the
  content type. \<open>RestRequest\<close> construction leaves every key other than \<open>method\<close>,
  \<open>headers\<close>, \<open>clear_session_cookies\<close> and \<open>follow_redirects\<close> as it was, always removes
  \<open>clear_session_cookies\<close> and, when it succeeds, has removed \<open>follow_redirects\<close>.
\<close>

theorem request_assembly_writes_to_stage:
  "(\<forall>k. k \<noteq> ''method'' \<and> k \<noteq> ''headers'' \<longrightarrow>
         map_of (snd (get_request_args env rspec cfg)) k = map_of rspec k)
   \<and> map_of (snd (get_request_args env rspec cfg)) ''method''
       = Some (case map_of rspec ''method'' of None \<Rightarrow> JStr ''GET'' | Some m \<Rightarrow> m)
   \<and> (\<not> dict_has rspec ''files'' \<longrightarrow>
         map_of (snd (get_request_args env rspec cfg)) ''headers''
           = Some (case map_of rspec ''headers'' of None \<Rightarrow> JDict [] | Some h \<Rightarrow> h))
   \<and> (\<forall>hs. dict_has rspec ''files'' \<and> map_of rspec ''headers'' = Some (JDict hs)
            \<and> \<not> (1 < length (filter (dict_has rspec) content_keys)
                   \<and> set (filter (dict_has rspec) content_keys) \<noteq> {''data'', ''files''})
            \<and> truthy (get_or_none (normalise_headers hs) ''content-type'') \<longrightarrow>
         map_of (snd (get_request_args env rspec cfg)) ''headers''
           = Some (JDict (filter (\<lambda>(i, j). lower i \<noteq> ''content-type'')
                            (normalise_headers hs))))
   \<and> ((1 < length (filter (dict_has rspec) content_keys)
          \<and> set (filter (dict_has rspec) content_keys) \<noteq> {''data'', ''files''})
        \<or> (\<forall>hs. map_of rspec ''headers'' = Some (JDict hs)
               \<longrightarrow> \<not> truthy (get_or_none (normalise_headers hs) ''content-type'')) \<longrightarrow>
         map_of (snd (get_request_args env rspec cfg)) ''headers''
           = Some (case map_of rspec ''headers'' of None \<Rightarrow> JDict [] | Some h \<Rightarrow> h))
   \<and> (\<forall>k. k \<noteq> ''method'' \<and> k \<noteq> ''headers'' \<and> k \<noteq> ''clear_session_cookies''
           \<and> k \<noteq> ''follow_redirects'' \<longrightarrow>
         map_of (snd (snd (rest_request_init env session rspec cfg))) k = map_of rspec k)
   \<and> map_of (snd (snd (rest_request_init env session rspec cfg))) ''clear_session_cookies''
       = None
   \<and> (\<forall>r. fst (rest_request_init env session rspec cfg) = Inr r \<longrightarrow>
         map_of (snd (snd (rest_request_init env session rspec cfg))) ''follow_redirects''
           = None)"
proof (intro conjI allI impI)
  fix k assume "k \<noteq> ''method'' \<and> k \<noteq> ''headers''"
  then show "map_of (snd (get_request_args env rspec cfg)) k = map_of rspec k"
    by (simp add: get_request_args_frame)
next
  show "map_of (snd (get_request_args env rspec cfg)) ''method''
       = Some (case map_of rspec ''method'' of None \<Rightarrow> JStr ''GET'' | Some m \<Rightarrow> m)"
    by (rule get_request_args_method)
next
  assume "\<not> dict_has rspec ''files''"
  then show "map_of (snd (get_request_args env rspec cfg)) ''headers''
           = Some (case map_of rspec ''headers'' of None \<Rightarrow> JDict [] | Some h \<Rightarrow> h)"
    by (rule get_request_args_headers)
next
  fix hs
  assume a: "dict_has rspec ''files'' \<and> map_of rspec ''headers'' = Some (JDict hs)
            \<and> \<not> (1 < length (filter (dict_has rspec) content_keys)
                   \<and> set (filter (dict_has rspec) content_keys) \<noteq> {''data'', ''files''})
            \<and> truthy (get_or_none (normalise_headers hs) ''content-type'')"
  show "map_of (snd (get_request_args env rspec cfg)) ''headers''
           = Some (JDict (filter (\<lambda>(i, j). lower i \<noteq> ''content-type'')
                            (normalise_headers hs)))"
    by (rule get_request_args_headers_rewritten
        [OF conjunct1 [OF a] conjunct1 [OF conjunct2 [OF a]]
            conjunct1 [OF conjunct2 [OF conjunct2 [OF a]]]
            conjunct2 [OF conjunct2 [OF conjunct2 [OF a]]]])
next
  assume "(1 < length (filter (dict_has rspec) content_keys)
          \<and> set (filter (dict_has rspec) content_keys) \<noteq> {''data'', ''files''})
        \<or> (\<forall>hs. map_of rspec ''headers'' = Some (JDict hs)
               \<longrightarrow> \<not> truthy (get_or_none (normalise_headers hs) ''content-type''))"
  then show "map_of (snd (get_request_args env rspec cfg)) ''headers''
           = Some (case map_of rspec ''headers'' of None \<Rightarrow> JDict [] | Some h \<Rightarrow> h)"
    by (rule get_request_args_headers_kept)
next
  fix k assume "k \<noteq> ''method'' \<and> k \<noteq> ''headers'' \<and> k \<noteq> ''clear_session_cookies''
           \<and> k \<noteq> ''follow_redirects''"
  then show "map_of (snd (snd (rest_request_init env session rspec cfg))) k = map_of rspec k"
    by (simp add: rest_request_init_frame)
next
  show "map_of (snd (snd (rest_request_init env session rspec cfg))) ''clear_session_cookies''
       = None"
    by (rule rest_request_init_clear)
next
  fix r assume "fst (rest_request_init env session rspec cfg) = Inr r"
  then have "snd (snd (rest_request_init env session rspec cfg))
     = AList.delete ''follow_redirects''
         (snd (get_request_args env (AList.delete ''clear_session_cookies'' rspec) cfg))"
    by (rule rest_request_init_success_rspec)
  then show "map_of (snd (snd (rest_request_init env session rspec cfg))) ''follow_redirects''
           = None"
    by (simp add: delete_conv')
qed

subsection \<open>Request assembly: the stage after assembly\<close>

lemma gra_redirect_stage:
  "get_request_args (plain_env refusing_transport) redirect_stage plain_config
     = (Inr [(''method'', JStr ''GET''), (''url'', JStr ''http://localhost/items''),
             (''headers'', JDict [])],
        [(''url'', JStr ''http://localhost/items''), (''follow_redirects'', JBool True),
         (''method'', JStr ''GET''), (''headers'', JDict [])])"
  by (simp add: redirect_stage_def plain_env_def plain_config_def
      get_request_args_def dict_has_def content_keys_def get_or_none_def normalise_headers_def
      collect_request_args_def infer_file_body_def bind_exn_def optional_in_file_def
      encode_params_def copy_if_present_def)

lemma init_redirect_stage:
  "rest_request_init (plain_env refusing_transport) xyz_session redirect_stage plain_config
     = (Inr \<lparr> self_request_args =
                [(''method'', JStr ''GET''), (''url'', JStr ''http://localhost/items''),
                 (''headers'', JDict []), (''allow_redirects'', JBool True)],
              self_file_body = JNone \<rparr>,
        xyz_session,
        [(''url'', JStr ''http://localhost/items''), (''method'', JStr ''GET''),
         (''headers'', JDict [])])"
  by (simp add: rest_request_init_def redirect_stage_def xyz_session_def
      plain_env_def plain_config_def check_expected_keys_def expected_request_keys_def
      get_request_args_def dict_has_def content_keys_def get_or_none_def normalise_headers_def
      collect_request_args_def infer_file_body_def bind_exn_def optional_in_file_def
      encode_params_def copy_if_present_def read_expected_cookies_def
      check_allow_redirects_def)

lemma in_request_upload:
  "filter (dict_has upload_stage) content_keys = [''files'']"
  by (simp add: upload_stage_def content_keys_def dict_has_def)

lemma in_request_upload_json:
  "filter (dict_has upload_json_stage) content_keys = [''json'', ''files'']"
  by (simp add: upload_json_stage_def content_keys_def dict_has_def)

lemma json_files_not_data_files: "set [''json'', ''files''] \<noteq> {''data'', ''files''}"
proof
  assume "set [''json'', ''files''] = {''data'', ''files''}"
  moreover have "''json'' \<in> set [''json'', ''files'']" by simp
  ultimately have "''json'' \<in> {''data'', ''files''}" by (simp only:)
  then show False by simp
qed

lemma normalise_upload_headers:
  "normalise_headers [(''Content-Type'', JStr ''text/plain''),
                      (''Authorization'', JStr ''token'')]
     = [(''content-type'', JStr ''text/plain''), (''authorization'', JStr ''token'')]"
  by (simp add: normalise_headers_def lower_def)

theorem request_assembly_writes_to_stage_witness:
  "map_of (snd (get_request_args (plain_env refusing_transport) redirect_stage plain_config))
       ''url'' = Some (JStr ''http://localhost/items'')
   \<and> map_of (snd (get_request_args (plain_env refusing_transport) redirect_stage plain_config))
       ''method'' = Some (JStr ''GET'')
   \<and> map_of (snd (get_request_args (plain_env refusing_transport) redirect_stage plain_config))
       ''headers'' = Some (JDict [])
   \<and> map_of (snd (get_request_args (plain_env refusing_transport) upload_stage plain_config))
       ''headers'' = Some (JDict [(''authorization'', JStr ''token'')])
   \<and> map_of (snd (get_request_args (plain_env refusing_transport) upload_json_stage
                     plain_config)) ''headers''
       = Some (JDict [(''Content-Type'', JStr ''text/plain''),
                      (''Authorization'', JStr ''token'')])
   \<and> map_of (snd (snd (rest_request_init (plain_env refusing_transport) xyz_session
                          redirect_stage plain_config))) ''url''
       = Some (JStr ''http://localhost/items'')
   \<and> map_of (snd (snd (rest_request_init (plain_env refusing_transport) xyz_session
                          redirect_stage plain_config))) ''clear_session_cookies'' = None
   \<and> map_of (snd (snd (rest_request_init (plain_env refusing_transport) xyz_session
                          redirect_stage plain_config))) ''follow_redirects'' = None"
proof -
  have nf: "\<not> dict_has redirect_stage ''files''"
    by (simp add: redirect_stage_def dict_has_def)
  have ok: "fst (rest_request_init (plain_env refusing_transport) xyz_session redirect_stage
                   plain_config)
              = Inr \<lparr> self_request_args =
                [(''method'', JStr ''GET''), (''url'', JStr ''http://localhost/items''),
                 (''headers'', JDict []), (''allow_redirects'', JBool True)],
              self_file_body = JNone \<rparr>"
    by (simp add: init_redirect_stage)
  have u: "map_of redirect_stage ''url'' = Some (JStr ''http://localhost/items'')"
    and m: "map_of redirect_stage ''method'' = None"
    and h: "map_of redirect_stage ''headers'' = None"
    by (simp_all add: redirect_stage_def)
  note t = request_assembly_writes_to_stage
      [where env = "plain_env refusing_transport" and rspec = redirect_stage
         and cfg = plain_config and session = xyz_session]
  note rewritten = request_assembly_writes_to_stage
      [where env = "plain_env refusing_transport" and rspec = upload_stage
         and cfg = plain_config and session = xyz_session,
       THEN conjunct2, THEN conjunct2, THEN conjunct2, THEN conjunct1, THEN spec, THEN mp]
  note kept = request_assembly_writes_to_stage
      [where env = "plain_env refusing_transport" and rspec = upload_json_stage
         and cfg = plain_config and session = xyz_session,
       THEN conjunct2, THEN conjunct2, THEN conjunct2, THEN conjunct2, THEN conjunct1, THEN mp]
  have f: "dict_has upload_stage ''files''"
    by (simp add: upload_stage_def dict_has_def)
  have hd: "map_of upload_stage ''headers''
              = Some (JDict [(''Content-Type'', JStr ''text/plain''),
                             (''Authorization'', JStr ''token'')])"
    by (simp add: upload_stage_def)
  have nr: "\<not> (1 < length (filter (dict_has upload_stage) content_keys)
               \<and> set (filter (dict_has upload_stage) content_keys) \<noteq> {''data'', ''files''})"
    unfolding in_request_upload by simp
  have tr: "truthy (get_or_none (normalise_headers [(''Content-Type'', JStr ''text/plain''),
                                   (''Authorization'', JStr ''token'')]) ''content-type'')"
    by (simp add: normalise_upload_headers get_or_none_def)
  have "map_of (snd (get_request_args (plain_env refusing_transport) upload_stage plain_config))
          ''headers''
        = Some (JDict (filter (\<lambda>(i, j). lower i \<noteq> ''content-type'')
                         (normalise_headers [(''Content-Type'', JStr ''text/plain''),
                                             (''Authorization'', JStr ''token'')])))"
    by (rule rewritten) (intro conjI f hd nr tr)
  then have up: "map_of (snd (get_request_args (plain_env refusing_transport) upload_stage
                                plain_config)) ''headers''
                   = Some (JDict [(''authorization'', JStr ''token'')])"
    by (simp add: normalise_upload_headers lower_def)
  have rj: "1 < length (filter (dict_has upload_json_stage) content_keys)
            \<and> set (filter (dict_has upload_json_stage) content_keys) \<noteq> {''data'', ''files''}"
    unfolding in_request_upload_json by (rule conjI, simp, rule json_files_not_data_files)
  have "map_of (snd (get_request_args (plain_env refusing_transport) upload_json_stage
                       plain_config)) ''headers''
          = Some (case map_of upload_json_stage ''headers'' of None \<Rightarrow> JDict []
                  | Some h \<Rightarrow> h)"
    by (rule kept) (rule disjI1, rule rj)
  then have kp: "map_of (snd (get_request_args (plain_env refusing_transport) upload_json_stage
                       plain_config)) ''headers''
          = Some (JDict [(''Content-Type'', JStr ''text/plain''),
                         (''Authorization'', JStr ''token'')])"
    by (simp add: upload_json_stage_def)
  from t nf ok u m h have
    "map_of (snd (get_request_args (plain_env refusing_transport) redirect_stage plain_config))
       ''url'' = Some (JStr ''http://localhost/items'')
   \<and> map_of (snd (get_request_args (plain_env refusing_transport) redirect_stage plain_config))
       ''method'' = Some (JStr ''GET'')
   \<and> map_of (snd (get_request_args (plain_env refusing_transport) redirect_stage plain_config))
       ''headers'' = Some (JDict [])
   \<and> map_of (snd (snd (rest_request_init (plain_env refusing_transport) xyz_session
                          redirect_stage plain_config))) ''url''
       = Some (JStr ''http://localhost/items'')
   \<and> map_of (snd (snd (rest_request_init (plain_env refusing_transport) xyz_session
                          redirect_stage plain_config))) ''clear_session_cookies'' = None
   \<and> map_of (snd (snd (rest_request_init (plain_env refusing_transport) xyz_session
                          redirect_stage plain_config))) ''follow_redirects'' = None"
    by simp
  with up kp show ?thesis by (simp only: simp_thms)
qed

text \<open>
  C9, as stated, fails. Assembling the request of a stage that gives only \<open>url\<close> and
  \<open>follow_redirects\<close> leaves a different dictionary behind: \<open>get_request_args\<close> has
  added \<open>method\<close> and \<open>headers\<close>, and \<open>RestRequest\<close> construction has moreover
  removed \<open>follow_redirects\<close>.
\<close>

theorem request_assembly_rewrites_stage:
  "snd (get_request_args (plain_env refusing_transport) redirect_stage plain_config)
     = [(''url'', JStr ''http://localhost/items''), (''follow_redirects'', JBool True),
        (''method'', JStr ''GET''), (''headers'', JDict [])]
   \<and> snd (snd (rest_request_init (plain_env refusing_transport) xyz_session redirect_stage
                  plain_config))
     = [(''url'', JStr ''http://localhost/items''), (''method'', JStr ''GET''),
        (''headers'', JDict [])]
   \<and> redirect_stage
     = [(''url'', JStr ''http://localhost/items''), (''follow_redirects'', JBool True)]
   \<and> snd (get_request_args (plain_env refusing_transport) redirect_stage plain_config)
       \<noteq> redirect_stage
   \<and> snd (snd (rest_request_init (plain_env refusing_transport) xyz_session redirect_stage
                  plain_config)) \<noteq> redirect_stage"
  by (simp add: gra_redirect_stage init_redirect_stage) (simp add: redirect_stage_def)

subsection \<open>Cookie negotiation at construction\<close>

lemma in_keys_absent:
  assumes "\<not> dict_has d n"
  shows "\<not> in_keys (JStr n) d"
  using assms by simp

lemma read_expected_cookies_missing:
  assumes fmt: "format_keys env (get_or_none rspec ''cookies'') (variables cfg) = Some directive"
    and ne: "directive \<noteq> JNone" "directive \<noteq> JList []" "directive \<noteq> JDict []"
    and items: "iterate directive = Some items"
    and hash: "list_all (\<lambda>x. is_dict x \<or> hashable x) items"
    and name: "JStr n \<in> set items"
    and absent: "\<not> dict_has (get_dict env (cookies session)) n"
  shows "read_expected_cookies env session rspec cfg
           = Inl (MissingCookieError (filter (\<lambda>x. \<not> is_dict x) items)
                    (get_dict env (cookies session)))"
proof -
  have h: "list_all hashable (filter (\<lambda>x. \<not> is_dict x) items)"
    using hash by (induction items) auto
  have "JStr n \<in> set (filter (\<lambda>c. \<not> in_keys c (get_dict env (cookies session)))
                         (filter (\<lambda>x. \<not> is_dict x) items))"
    using name absent by simp
  then have m: "filter (\<lambda>c. \<not> in_keys c (get_dict env (cookies session)))
                  (filter (\<lambda>x. \<not> is_dict x) items) \<noteq> []"
    by (metis empty_iff empty_set)
  show ?thesis
    unfolding read_expected_cookies_def Let_def partition_by_def
    using fmt ne items h m by (simp del: filter_filter)
qed

lemma read_expected_cookies_cong:
  assumes "get_or_none rspec' ''cookies'' = get_or_none rspec ''cookies''"
  shows "read_expected_cookies env session rspec' cfg = read_expected_cookies env session rspec cfg"
  unfolding read_expected_cookies_def using assms by (simp only:)

lemma get_request_args_cookies:
  "get_or_none (snd (get_request_args env (AList.delete ''clear_session_cookies'' rspec) cfg))
      ''cookies'' = get_or_none rspec ''cookies''"
  by (simp add: get_or_none_def get_request_args_frame delete_conv')

lemma rest_request_init_negotiates:
  assumes "check_expected_keys expected_request_keys
             (AList.delete ''clear_session_cookies'' rspec) = Inr ()"
    and "fst (get_request_args env (AList.delete ''clear_session_cookies'' rspec) cfg) = Inr args"
    and "update_from_ext env args (optional_in_file @ [''url'']) = Some args'"
    and "read_expected_cookies env
           (if truthy (case map_of rspec ''clear_session_cookies'' of
                         None \<Rightarrow> JBool False | Some v \<Rightarrow> v)
            then session\<lparr>cookies := clear_session_cookies env (cookies session)\<rparr>
            else session) rspec cfg = Inl e"
  shows "fst (rest_request_init env session rspec cfg) = Inl e"
proof -
  obtain r where g: "get_request_args env (AList.delete ''clear_session_cookies'' rspec) cfg
                       = (Inr args, r)"
    using assms(2) by (cases "get_request_args env (AList.delete ''clear_session_cookies'' rspec) cfg") simp
  have "get_or_none r ''cookies'' = get_or_none rspec ''cookies''"
    using get_request_args_cookies [of env rspec cfg] g by simp
  then have c: "\<And>s. read_expected_cookies env s r cfg = read_expected_cookies env s rspec cfg"
    by (rule read_expected_cookies_cong)
  show ?thesis
    unfolding rest_request_init_def Let_def
    using assms(1,3,4) g c by (simp split: if_splits)
qed

text \<open>The constructor and everything it calls do not depend on the transport.\<close>

lemma env_transport:
  "format_keys (env\<lparr>session_request := t\<rparr>) = format_keys env"
  "valid_http_methods (env\<lparr>session_request := t\<rparr>) = valid_http_methods env"
  "guess_filespec (env\<lparr>session_request := t\<rparr>) = guess_filespec env"
  "update_from_ext (env\<lparr>session_request := t\<rparr>) = update_from_ext env"
  "quote_plus_json (env\<lparr>session_request := t\<rparr>) = quote_plus_json env"
  "get_dict (env\<lparr>session_request := t\<rparr>) = get_dict env"
  "clear_session_cookies (env\<lparr>session_request := t\<rparr>) = clear_session_cookies env"
  "py_str (env\<lparr>session_request := t\<rparr>) = py_str env"
  by simp_all

lemma infer_file_body_transport:
  "infer_file_body (env\<lparr>session_request := t\<rparr>) fspec cfg ch eh
     = infer_file_body env fspec cfg ch eh"
  unfolding infer_file_body_def env_transport by (rule refl)

lemma encode_params_transport:
  "encode_params (env\<lparr>session_request := t\<rparr>) request_args = encode_params env request_args"
  unfolding encode_params_def env_transport by (rule refl)

lemma collect_request_args_transport:
  "collect_request_args (env\<lparr>session_request := t\<rparr>) rspec cfg ch eh
     = collect_request_args env rspec cfg ch eh"
  unfolding collect_request_args_def env_transport infer_file_body_transport
    encode_params_transport by (rule refl)

lemma get_request_args_transport:
  "get_request_args (env\<lparr>session_request := t\<rparr>) rspec cfg = get_request_args env rspec cfg"
  unfolding get_request_args_def collect_request_args_transport by (rule refl)

lemma read_expected_cookies_transport:
  "read_expected_cookies (env\<lparr>session_request := t\<rparr>) session rspec cfg
     = read_expected_cookies env session rspec cfg"
  unfolding read_expected_cookies_def env_transport by (rule refl)

lemma rest_request_init_transport:
  "rest_request_init (env\<lparr>session_request := t\<rparr>) session rspec cfg
     = rest_request_init env session rspec cfg"
  unfolding rest_request_init_def env_transport get_request_args_transport
    read_expected_cookies_transport by (rule refl)

text \<open>
  C8. Let the substituted \<open>cookies\<close> directive be non-empty, with every item a mapping or a
  hashable value (as names are), and let one of its items be a name \<open>n\<close> that is not among
  the cookies of the current session, which is the session after \<open>clear_session_cookies\<close>
  was honoured. Then negotiation raises \<open>MissingCookieError\<close>, reporting the verbatim items
  of the directive and the cookies of the session. When the constructor gets as far as
  negotiation (the keys of the stage are the expected ones, \<open>get_request_args\<close> and
  \<open>update_from_ext\<close> return), constructing the request raises this error, whatever the
  transport is: the transport is not called.
\<close>

theorem missing_cookie_raised_at_construction:
  assumes cur: "current =
        (if truthy (case map_of rspec ''clear_session_cookies'' of
                      None \<Rightarrow> JBool False | Some v \<Rightarrow> v)
         then session\<lparr>cookies := clear_session_cookies env (cookies session)\<rparr>
         else session)"
    and fmt: "format_keys env (get_or_none rspec ''cookies'') (variables cfg) = Some directive"
    and ne: "directive \<noteq> JNone \<and> directive \<noteq> JList [] \<and> directive \<noteq> JDict []"
    and items: "iterate directive = Some items"
    and hash: "list_all (\<lambda>x. is_dict x \<or> hashable x) items"
    and name: "JStr n \<in> set items"
    and absent: "\<not> dict_has (get_dict env (cookies current)) n"
  shows "read_expected_cookies env current rspec cfg
           = Inl (MissingCookieError (filter (\<lambda>x. \<not> is_dict x) items)
                    (get_dict env (cookies current)))
     \<and> (check_expected_keys expected_request_keys
            (AList.delete ''clear_session_cookies'' rspec) = Inr ()
          \<and> (\<exists>args. fst (get_request_args env (AList.delete ''clear_session_cookies'' rspec) cfg)
                        = Inr args
                   \<and> update_from_ext env args (optional_in_file @ [''url'']) \<noteq> None)
        \<longrightarrow> (\<forall>transport.
               fst (rest_request_init (env\<lparr>session_request := transport\<rparr>) session rspec cfg)
                 = Inl (MissingCookieError (filter (\<lambda>x. \<not> is_dict x) items)
                          (get_dict env (cookies current)))))"
proof (intro conjI impI allI)
  show r: "read_expected_cookies env current rspec cfg
           = Inl (MissingCookieError (filter (\<lambda>x. \<not> is_dict x) items)
                    (get_dict env (cookies current)))"
    using fmt ne items hash name absent by (intro read_expected_cookies_missing) simp_all
  fix transport
  assume a: "check_expected_keys expected_request_keys
            (AList.delete ''clear_session_cookies'' rspec) = Inr ()
          \<and> (\<exists>args. fst (get_request_args env (AList.delete ''clear_session_cookies'' rspec) cfg)
                        = Inr args
                   \<and> update_from_ext env args (optional_in_file @ [''url'']) \<noteq> None)"
  then obtain args args' where
    g: "fst (get_request_args env (AList.delete ''clear_session_cookies'' rspec) cfg) = Inr args"
    and u: "update_from_ext env args (optional_in_file @ [''url'']) = Some args'"
    by auto
  from a have k: "check_expected_keys expected_request_keys
            (AList.delete ''clear_session_cookies'' rspec) = Inr ()"
    by (rule conjunct1)
  have "fst (rest_request_init env session rspec cfg)
          = Inl (MissingCookieError (filter (\<lambda>x. \<not> is_dict x) items)
                   (get_dict env (cookies current)))"
    unfolding cur by (rule rest_request_init_negotiates [OF k g u r [unfolded cur]])
  then show "fst (rest_request_init (env\<lparr>session_request := transport\<rparr>) session rspec cfg)
          = Inl (MissingCookieError (filter (\<lambda>x. \<not> is_dict x) items)
                   (get_dict env (cookies current)))"
    by (simp only: rest_request_init_transport)
qed

lemma construction_reaches_negotiation:
  "check_expected_keys expected_request_keys
       (AList.delete ''clear_session_cookies'' missing_cookie_stage) = Inr ()
   \<and> (\<exists>args. fst (get_request_args (plain_env refusing_transport)
                     (AList.delete ''clear_session_cookies'' missing_cookie_stage) plain_config)
                 = Inr args
            \<and> update_from_ext (plain_env refusing_transport) args (optional_in_file @ [''url''])
                \<noteq> None)"
  by (simp add: missing_cookie_stage_def plain_env_def plain_config_def
      check_expected_keys_def expected_request_keys_def
      get_request_args_def dict_has_def content_keys_def get_or_none_def normalise_headers_def
      collect_request_args_def infer_file_body_def bind_exn_def optional_in_file_def
      encode_params_def copy_if_present_def)

lemma plain_env_transport:
  "(plain_env t)\<lparr>session_request := t'\<rparr> = plain_env t'"
  by (simp add: plain_env_def)

theorem missing_cookie_raised_at_construction_witness:
  "read_expected_cookies (plain_env refusing_transport) other_session missing_cookie_stage
       plain_config
     = Inl (MissingCookieError [JStr ''session_id''] [(''other'', ''1'')])
   \<and> fst (rest_request_init (plain_env answering_transport) other_session missing_cookie_stage
            plain_config)
     = Inl (MissingCookieError [JStr ''session_id''] [(''other'', ''1'')])"
proof -
  have cur: "other_session =
        (if truthy (case map_of missing_cookie_stage ''clear_session_cookies'' of
                      None \<Rightarrow> JBool False | Some v \<Rightarrow> v)
         then other_session\<lparr>cookies := clear_session_cookies (plain_env refusing_transport)
                                         (cookies other_session)\<rparr>
         else other_session)"
    by (simp add: missing_cookie_stage_def)
  have fmt: "format_keys (plain_env refusing_transport)
               (get_or_none missing_cookie_stage ''cookies'') (variables plain_config)
             = Some (JList [JStr ''session_id'', JDict [(''csrf'', JStr ''abc'')]])"
    by (simp add: plain_env_def missing_cookie_stage_def get_or_none_def)
  have ne: "JList [JStr ''session_id'', JDict [(''csrf'', JStr ''abc'')]] \<noteq> JNone
            \<and> JList [JStr ''session_id'', JDict [(''csrf'', JStr ''abc'')]] \<noteq> JList []
            \<and> JList [JStr ''session_id'', JDict [(''csrf'', JStr ''abc'')]] \<noteq> JDict []"
    by simp
  have items: "iterate (JList [JStr ''session_id'', JDict [(''csrf'', JStr ''abc'')]])
                 = Some [JStr ''session_id'', JDict [(''csrf'', JStr ''abc'')]]"
    by simp
  have hash: "list_all (\<lambda>x. is_dict x \<or> hashable x)
                [JStr ''session_id'', JDict [(''csrf'', JStr ''abc'')]]"
    by simp
  have name: "JStr ''session_id'' \<in> set [JStr ''session_id'', JDict [(''csrf'', JStr ''abc'')]]"
    by simp
  have absent: "\<not> dict_has (get_dict (plain_env refusing_transport) (cookies other_session))
                     ''session_id''"
    by (simp add: plain_env_def other_session_def dict_has_def)
  note t = missing_cookie_raised_at_construction [OF cur fmt ne items hash name absent]
  have e: "get_dict (plain_env refusing_transport) (cookies other_session) = [(''other'', ''1'')]"
    by (simp add: plain_env_def other_session_def)
  have f: "filter (\<lambda>x. \<not> is_dict x) [JStr ''session_id'', JDict [(''csrf'', JStr ''abc'')]]
             = [JStr ''session_id'']"
    by simp
  from t [THEN conjunct1] have 1:
    "read_expected_cookies (plain_env refusing_transport) other_session missing_cookie_stage
       plain_config
     = Inl (MissingCookieError [JStr ''session_id''] [(''other'', ''1'')])"
    unfolding e f .
  from t [THEN conjunct2, THEN mp, OF construction_reaches_negotiation, THEN spec,
          of answering_transport]
  have 2: "fst (rest_request_init (plain_env answering_transport) other_session
                  missing_cookie_stage plain_config)
     = Inl (MissingCookieError [JStr ''session_id''] [(''other'', ''1'')])"
    unfolding e f plain_env_transport .
  from 1 2 show ?thesis by (rule conjI)
qed

subsection \<open>The status check\<close>

lemma deep_dict_merge_absent:
  assumes "\<not> dict_has merge_dct k"
  shows "map_of (deep_dict_merge initial_dct merge_dct) k = map_of initial_dct k"
proof -
  have "k \<notin> fst ` set xs \<Longrightarrow>
          map_of (foldl (\<lambda>dct (k, v). AList.update k v dct) d xs) k = map_of d k" for xs d
    by (induction xs arbitrary: d) (auto simp: update_conv')
  moreover have "k \<notin> fst ` set merge_dct"
    using assms by (simp add: dict_has_def map_of_eq_None_iff)
  ultimately show ?thesis by (simp add: deep_dict_merge_def)
qed

lemma rest_response_init_default:
  assumes "\<not> dict_has expected ''status_code''"
  shows "\<exists>self w. rest_response_init env expected = Inr (self, w)
           \<and> map_of (self_expected self) ''status_code'' = Some (JInt 200)
           \<and> self_errors self = []"
  using deep_dict_merge_absent [OF assms, of "[(''status_code'', JInt 200)]"]
  by (simp add: rest_response_init_def check_code_def)

lemma check_status_code_value:
  assumes "map_of (self_expected self) ''status_code'' = Some expected_code"
  shows "check_status_code self (JInt code) body =
           Inr (if (case expected_code of
                      JList codes \<Rightarrow> list_ex (py_eq (JInt code)) codes
                    | scalar \<Rightarrow> py_eq (JInt code) scalar)
                then self
                else adderr self
                       (if 400 \<le> code \<and> code < 500
                        then Verr ''Status code was %s, expected %s:\<newline>%s''
                               [Plain (JInt code), Plain expected_code, Indented_json body]
                        else Verr ''Status code was %s, expected %s''
                               [Plain (JInt code), Plain expected_code]))"
  using assms
  by (cases expected_code) (simp_all add: check_status_code_def is_int_def py_eq_def)

lemma adderr_changes: "self_errors (adderr self e) \<noteq> self_errors self"
  by (simp add: adderr_def)

text \<open>
  C6. When the expected block gives no status code, construction succeeds and the object
  expects 200. For an integer status code of the response, the status check returns, and
  it leaves the object as it was when the code equals the expected scalar or is a member
  of the expected list; otherwise it adds one error, which carries the body, to be
  serialised as JSON, when the code is from 400 to 499, and only the two codes when it is
  not. So the errors are unchanged exactly when the code matches.
\<close>

theorem status_check_default_match_and_body:
  "(\<not> dict_has expected ''status_code'' \<longrightarrow>
       (\<exists>self w. rest_response_init env expected = Inr (self, w)
          \<and> map_of (self_expected self) ''status_code'' = Some (JInt 200)
          \<and> self_errors self = []))
   \<and> (map_of (self_expected self) ''status_code'' = Some expected_code \<longrightarrow>
       check_status_code self (JInt code) body =
         Inr (if (case expected_code of
                    JList codes \<Rightarrow> list_ex (py_eq (JInt code)) codes
                  | scalar \<Rightarrow> py_eq (JInt code) scalar)
              then self
              else adderr self
                     (if 400 \<le> code \<and> code < 500
                      then Verr ''Status code was %s, expected %s:\<newline>%s''
                             [Plain (JInt code), Plain expected_code, Indented_json body]
                      else Verr ''Status code was %s, expected %s''
                             [Plain (JInt code), Plain expected_code]))
       \<and> (\<forall>self'. check_status_code self (JInt code) body = Inr self' \<longrightarrow>
             (self_errors self' = self_errors self)
               = (case expected_code of
                    JList codes \<Rightarrow> list_ex (py_eq (JInt code)) codes
                  | scalar \<Rightarrow> py_eq (JInt code) scalar)))"
proof (intro conjI impI allI)
  assume "\<not> dict_has expected ''status_code''"
  then show "\<exists>self w. rest_response_init env expected = Inr (self, w)
          \<and> map_of (self_expected self) ''status_code'' = Some (JInt 200)
          \<and> self_errors self = []"
    by (rule rest_response_init_default)
next
  assume a: "map_of (self_expected self) ''status_code'' = Some expected_code"
  then show "check_status_code self (JInt code) body =
         Inr (if (case expected_code of
                    JList codes \<Rightarrow> list_ex (py_eq (JInt code)) codes
                  | scalar \<Rightarrow> py_eq (JInt code) scalar)
              then self
              else adderr self
                     (if 400 \<le> code \<and> code < 500
                      then Verr ''Status code was %s, expected %s:\<newline>%s''
                             [Plain (JInt code), Plain expected_code, Indented_json body]
                      else Verr ''Status code was %s, expected %s''
                             [Plain (JInt code), Plain expected_code]))"
    by (rule check_status_code_value)
next
  fix self'
  assume a: "map_of (self_expected self) ''status_code'' = Some expected_code"
    and b: "check_status_code self (JInt code) body = Inr self'"
  show "(self_errors self' = self_errors self)
               = (case expected_code of
                    JList codes \<Rightarrow> list_ex (py_eq (JInt code)) codes
                  | scalar \<Rightarrow> py_eq (JInt code) scalar)"
  proof (cases "case expected_code of
                    JList codes \<Rightarrow> list_ex (py_eq (JInt code)) codes
                  | scalar \<Rightarrow> py_eq (JInt code) scalar")
    case True
    with b show ?thesis
      unfolding check_status_code_value [OF a] by (simp only: if_True) simp
  next
    case False
    with b show ?thesis
      unfolding check_status_code_value [OF a] by (simp only: if_False) (auto simp: adderr_def)
  qed
qed

theorem status_check_default_match_and_body_witness:
  "(\<exists>self w. rest_response_init plain_response_env [] = Inr (self, w)
          \<and> map_of (self_expected self) ''status_code'' = Some (JInt 200)
          \<and> self_errors self = [])
   \<and> check_status_code (expecting (JInt 200)) (JInt 404) (JDict [(''error'', JStr ''not found'')])
       = Inr \<lparr> self_expected = [(''status_code'', JInt 200)],
               self_errors = [Verr ''Status code was %s, expected %s:\<newline>%s''
                                [Plain (JInt 404), Plain (JInt 200),
                                 Indented_json (JDict [(''error'', JStr ''not found'')])]] \<rparr>
   \<and> check_status_code (expecting (JInt 200)) (JInt 500) (JDict [(''error'', JStr ''down'')])
       = Inr \<lparr> self_expected = [(''status_code'', JInt 200)],
               self_errors = [Verr ''Status code was %s, expected %s''
                                [Plain (JInt 500), Plain (JInt 200)]] \<rparr>
   \<and> check_status_code (expecting (JList [JInt 200, JInt 204])) (JInt 204) JNone
       = Inr (expecting (JList [JInt 200, JInt 204]))"
proof -
  have d: "\<not> dict_has [] ''status_code''"
    by (simp add: dict_has_def)
  have e: "map_of (self_expected (expecting c)) ''status_code'' = Some c" for c
    by (simp add: expecting_def)
  note t = status_check_default_match_and_body
  from t [where expected = "[]" and env = plain_response_env, THEN conjunct1, THEN mp, OF d]
  have 1: "\<exists>self w. rest_response_init plain_response_env [] = Inr (self, w)
          \<and> map_of (self_expected self) ''status_code'' = Some (JInt 200)
          \<and> self_errors self = []" .
  from t [where self = "expecting (JInt 200)" and expected_code = "JInt 200" and code = 404
            and body = "JDict [(''error'', JStr ''not found'')]",
          THEN conjunct2, THEN mp, OF e, THEN conjunct1]
  have 2: "check_status_code (expecting (JInt 200)) (JInt 404)
             (JDict [(''error'', JStr ''not found'')])
       = Inr \<lparr> self_expected = [(''status_code'', JInt 200)],
               self_errors = [Verr ''Status code was %s, expected %s:\<newline>%s''
                                [Plain (JInt 404), Plain (JInt 200),
                                 Indented_json (JDict [(''error'', JStr ''not found'')])]] \<rparr>"
    by (simp add: py_eq_def adderr_def expecting_def)
  from t [where self = "expecting (JInt 200)" and expected_code = "JInt 200" and code = 500
            and body = "JDict [(''error'', JStr ''down'')]",
          THEN conjunct2, THEN mp, OF e, THEN conjunct1]
  have 3: "check_status_code (expecting (JInt 200)) (JInt 500) (JDict [(''error'', JStr ''down'')])
       = Inr \<lparr> self_expected = [(''status_code'', JInt 200)],
               self_errors = [Verr ''Status code was %s, expected %s''
                                [Plain (JInt 500), Plain (JInt 200)]] \<rparr>"
    by (simp add: py_eq_def adderr_def expecting_def)
  from t [where self = "expecting (JList [JInt 200, JInt 204])"
            and expected_code = "JList [JInt 200, JInt 204]" and code = 204 and body = JNone,
          THEN conjunct2, THEN mp, OF e, THEN conjunct1]
  have 4: "check_status_code (expecting (JList [JInt 200, JInt 204])) (JInt 204) JNone
       = Inr (expecting (JList [JInt 200, JInt 204]))"
    by (simp add: py_eq_def)
  from 1 2 3 4 show ?thesis by (intro conjI)
qed

subsection \<open>The expected status codes at construction\<close>

lemma py_int_Inl: "py_int parse v = Inl e \<Longrightarrow> e = TypeError \<or> e = ValueError"
  by (cases v) (auto split: option.splits)

lemma check_code_Inl: "(check_code env c = Inl e) = (py_int (int_of_str env) c = Inl e)"
  by (simp add: check_code_def split: sum.splits)

lemma check_code_Inr:
  "py_int (int_of_str env) c = Inr i \<Longrightarrow>
   check_code env c = Inr (if i \<in> set (status_codes env) then [] else [c])"
  by (simp add: check_code_def)

lemma check_codes_Inl:
  "(check_codes env xs = Inl e)
     = (\<exists>pre c post. xs = pre @ c # post
          \<and> (\<forall>x\<in>set pre. \<exists>i. py_int (int_of_str env) x = Inr i)
          \<and> py_int (int_of_str env) c = Inl e)"
proof (induction xs)
  case Nil
  then show ?case by simp
next
  case (Cons x xs)
  show ?case
  proof (cases "py_int (int_of_str env) x")
    case (Inl e')
    then have l: "check_codes env (x # xs) = Inl e'"
      by (simp add: check_code_def)
    show ?thesis
    proof
      assume "check_codes env (x # xs) = Inl e"
      with l have "e' = e" by simp
      with Inl have "x # xs = [] @ x # xs \<and> (\<forall>y\<in>set []. \<exists>i. py_int (int_of_str env) y = Inr i)
                      \<and> py_int (int_of_str env) x = Inl e"
        by simp
      then show "\<exists>pre c post. x # xs = pre @ c # post
          \<and> (\<forall>x\<in>set pre. \<exists>i. py_int (int_of_str env) x = Inr i)
          \<and> py_int (int_of_str env) c = Inl e"
        by blast
    next
      assume "\<exists>pre c post. x # xs = pre @ c # post
          \<and> (\<forall>x\<in>set pre. \<exists>i. py_int (int_of_str env) x = Inr i)
          \<and> py_int (int_of_str env) c = Inl e"
      then obtain pre c post where p: "x # xs = pre @ c # post"
        and q: "\<forall>x\<in>set pre. \<exists>i. py_int (int_of_str env) x = Inr i"
        and r: "py_int (int_of_str env) c = Inl e"
        by blast
      have "pre = []"
      proof (cases pre)
        case Nil
        then show ?thesis .
      next
        case (Cons a as)
        with p have "a = x" by simp
        with Cons q Inl show ?thesis by simp
      qed
      with p r Inl have "e' = e" by simp
      with l show "check_codes env (x # xs) = Inl e" by simp
    qed
  next
    case (Inr i)
    then have c: "check_code env x = Inr (if i \<in> set (status_codes env) then [] else [x])"
      by (rule check_code_Inr)
    have l: "(check_codes env (x # xs) = Inl e) = (check_codes env xs = Inl e)"
      by (simp add: c split: sum.splits)
    have "(\<exists>pre c post. x # xs = pre @ c # post
          \<and> (\<forall>x\<in>set pre. \<exists>i. py_int (int_of_str env) x = Inr i)
          \<and> py_int (int_of_str env) c = Inl e)
       = (\<exists>pre c post. xs = pre @ c # post
          \<and> (\<forall>x\<in>set pre. \<exists>i. py_int (int_of_str env) x = Inr i)
          \<and> py_int (int_of_str env) c = Inl e)"
    proof
      assume "\<exists>pre c post. x # xs = pre @ c # post
          \<and> (\<forall>x\<in>set pre. \<exists>i. py_int (int_of_str env) x = Inr i)
          \<and> py_int (int_of_str env) c = Inl e"
      then obtain pre c post where p: "x # xs = pre @ c # post"
        and q: "\<forall>x\<in>set pre. \<exists>i. py_int (int_of_str env) x = Inr i"
        and r: "py_int (int_of_str env) c = Inl e"
        by blast
      show "\<exists>pre c post. xs = pre @ c # post
          \<and> (\<forall>x\<in>set pre. \<exists>i. py_int (int_of_str env) x = Inr i)
          \<and> py_int (int_of_str env) c = Inl e"
      proof (cases pre)
        case Nil
        with p r Inr show ?thesis by simp
      next
        case (Cons a as)
        with p q have "xs = as @ c # post"
          and "\<forall>x\<in>set as. \<exists>i. py_int (int_of_str env) x = Inr i"
          by simp_all
        with r show ?thesis by blast
      qed
    next
      assume "\<exists>pre c post. xs = pre @ c # post
          \<and> (\<forall>x\<in>set pre. \<exists>i. py_int (int_of_str env) x = Inr i)
          \<and> py_int (int_of_str env) c = Inl e"
      then obtain pre c post where p: "xs = pre @ c # post"
        and q: "\<forall>x\<in>set pre. \<exists>i. py_int (int_of_str env) x = Inr i"
        and r: "py_int (int_of_str env) c = Inl e"
        by blast
      from p q Inr have "x # xs = (x # pre) @ c # post"
        and "\<forall>y\<in>set (x # pre). \<exists>i. py_int (int_of_str env) y = Inr i"
        by simp_all
      with r show "\<exists>pre c post. x # xs = pre @ c # post
          \<and> (\<forall>x\<in>set pre. \<exists>i. py_int (int_of_str env) x = Inr i)
          \<and> py_int (int_of_str env) c = Inl e"
        by blast
    qed
    with l Cons.IH show ?thesis by simp
  qed
qed

lemma check_codes_Inl_kind: "check_codes env xs = Inl e \<Longrightarrow> e = TypeError \<or> e = ValueError"
  unfolding check_codes_Inl using py_int_Inl by blast

lemma check_codes_ints:
  "check_codes env (map JInt cs) = Inr (map JInt (filter (\<lambda>c. c \<notin> set (status_codes env)) cs))"
  by (induction cs) (simp_all add: check_code_def)


lemma foldl_update_absent:
  "k \<notin> fst ` set xs \<Longrightarrow>
     map_of (foldl (\<lambda>dct (k, v). AList.update k v dct) d xs) k = map_of d k"
  by (induction xs arbitrary: d) (auto simp: update_conv')

lemma deep_dict_merge_present:
  assumes "distinct (map fst merge_dct)" and "map_of merge_dct k = Some v"
  shows "map_of (deep_dict_merge initial_dct merge_dct) k = Some v"
proof -
  have "distinct (map fst xs) \<Longrightarrow> map_of xs k = Some v \<Longrightarrow>
          map_of (foldl (\<lambda>dct (k, v). AList.update k v dct) d xs) k = Some v" for xs d
  proof (induction xs arbitrary: d)
    case Nil
    then show ?case by simp
  next
    case (Cons a xs)
    obtain a1 a2 where a: "a = (a1, a2)" by (cases a)
    show ?case
    proof (cases "a1 = k")
      case True
      with Cons.prems a have "k \<notin> fst ` set xs" and "a2 = v" by auto
      with True a show ?thesis by (simp add: foldl_update_absent update_conv')
    next
      case False
      with Cons a show ?thesis by simp
    qed
  qed
  with assms show ?thesis by (simp add: deep_dict_merge_def)
qed

lemma rest_response_init_BadSchema:
  assumes "map_of (deep_dict_merge [(''status_code'', JInt 200)] expected) ''status_code''
             = Some in_file"
  shows "(rest_response_init env expected = Inl (BadSchemaError m))
     = (m = ''Invalid code''
        \<and> (case in_file of JList codes \<Rightarrow> check_codes env codes | _ \<Rightarrow> check_code env in_file)
            = Inl TypeError)"
proof (cases "case in_file of JList codes \<Rightarrow> check_codes env codes | _ \<Rightarrow> check_code env in_file")
  case (Inl e)
  have "e = TypeError \<or> e = ValueError"
  proof (cases "\<exists>codes. in_file = JList codes")
    case True
    then obtain codes where "in_file = JList codes" by blast
    with Inl have "check_codes env codes = Inl e" by simp
    then show ?thesis by (rule check_codes_Inl_kind)
  next
    case False
    then have "(case in_file of JList codes \<Rightarrow> check_codes env codes
                | _ \<Rightarrow> check_code env in_file) = check_code env in_file"
      by (cases in_file) simp_all
    with Inl have "py_int (int_of_str env) in_file = Inl e"
      by (simp add: check_code_Inl)
    then show ?thesis by (rule py_int_Inl)
  qed
  with Inl assms show ?thesis
    by (auto simp: rest_response_init_def)
next
  case (Inr w)
  with assms show ?thesis
    by (simp add: rest_response_init_def)
qed

lemma check_code_Inl_split:
  "(check_code env c = Inl e)
     = (\<exists>pre code post. [c] = pre @ code # post
          \<and> (\<forall>x\<in>set pre. \<exists>i. py_int (int_of_str env) x = Inr i)
          \<and> py_int (int_of_str env) code = Inl e)"
proof
  assume "check_code env c = Inl e"
  then have "[c] = [] @ c # [] \<and> (\<forall>x\<in>set []. \<exists>i. py_int (int_of_str env) x = Inr i)
               \<and> py_int (int_of_str env) c = Inl e"
    by (simp add: check_code_Inl)
  then show "\<exists>pre code post. [c] = pre @ code # post
          \<and> (\<forall>x\<in>set pre. \<exists>i. py_int (int_of_str env) x = Inr i)
          \<and> py_int (int_of_str env) code = Inl e"
    by blast
next
  assume "\<exists>pre code post. [c] = pre @ code # post
          \<and> (\<forall>x\<in>set pre. \<exists>i. py_int (int_of_str env) x = Inr i)
          \<and> py_int (int_of_str env) code = Inl e"
  then obtain pre code post where p: "[c] = pre @ code # post"
    and r: "py_int (int_of_str env) code = Inl e"
    by blast
  from p have "code = c" by (cases pre) simp_all
  with r show "check_code env c = Inl e" by (simp add: check_code_Inl)
qed

text \<open>
  C10. Let the expected block, a dictionary, give \<open>status_code\<close>. When it is an integer,
  or a list of integers, construction succeeds whether or not the codes are in the table
  of known codes; the codes that are not are the ones warned about. Construction raises
  \<open>BadSchemaError\<close> exactly when one of the codes, taken in order, is the first whose
  conversion by \<open>int\<close> fails and it fails with \<open>TypeError\<close>; the message is then
  \<open>Invalid code\<close>. A \<open>ValueError\<close> of the conversion is not caught.
\<close>

theorem unknown_codes_warn_type_errors_reject:
  assumes "distinct (map fst expected)"
    and "map_of expected ''status_code'' = Some in_file"
  shows
    "(\<forall>c. in_file = JInt c \<longrightarrow>
        rest_response_init env expected
          = Inr (\<lparr> self_expected = deep_dict_merge [(''status_code'', JInt 200)] expected,
                   self_errors = [] \<rparr>,
                 if c \<in> set (status_codes env) then [] else [JInt c]))
     \<and> (\<forall>cs. in_file = JList (map JInt cs) \<longrightarrow>
        rest_response_init env expected
          = Inr (\<lparr> self_expected = deep_dict_merge [(''status_code'', JInt 200)] expected,
                   self_errors = [] \<rparr>,
                 map JInt (filter (\<lambda>c. c \<notin> set (status_codes env)) cs)))
     \<and> ((\<exists>m. rest_response_init env expected = Inl (BadSchemaError m))
          = (\<exists>pre code post.
               (case in_file of JList codes \<Rightarrow> codes | _ \<Rightarrow> [in_file]) = pre @ code # post
               \<and> (\<forall>c\<in>set pre. \<exists>i. py_int (int_of_str env) c = Inr i)
               \<and> py_int (int_of_str env) code = Inl TypeError))
     \<and> (\<forall>m. rest_response_init env expected = Inl (BadSchemaError m) \<longrightarrow> m = ''Invalid code'')"
proof -
  have m: "map_of (deep_dict_merge [(''status_code'', JInt 200)] expected) ''status_code''
             = Some in_file"
    using assms by (rule deep_dict_merge_present)
  have 1: "rest_response_init env expected
          = Inr (\<lparr> self_expected = deep_dict_merge [(''status_code'', JInt 200)] expected,
                   self_errors = [] \<rparr>,
                 if c \<in> set (status_codes env) then [] else [JInt c])"
    if "in_file = JInt c" for c
    using m that by (simp add: rest_response_init_def check_code_def)
  have 2: "rest_response_init env expected
          = Inr (\<lparr> self_expected = deep_dict_merge [(''status_code'', JInt 200)] expected,
                   self_errors = [] \<rparr>,
                 map JInt (filter (\<lambda>c. c \<notin> set (status_codes env)) cs))"
    if "in_file = JList (map JInt cs)" for cs
    using m that by (simp add: rest_response_init_def check_codes_ints)
  have 3: "(\<exists>m. rest_response_init env expected = Inl (BadSchemaError m))
          = (\<exists>pre code post.
               (case in_file of JList codes \<Rightarrow> codes | _ \<Rightarrow> [in_file]) = pre @ code # post
               \<and> (\<forall>c\<in>set pre. \<exists>i. py_int (int_of_str env) c = Inr i)
               \<and> py_int (int_of_str env) code = Inl TypeError)"
    unfolding rest_response_init_BadSchema [OF m]
    by (cases in_file) (simp_all add: check_codes_Inl check_code_Inl_split)
  have 4: "m' = ''Invalid code''"
    if "rest_response_init env expected = Inl (BadSchemaError m')" for m'
    using that unfolding rest_response_init_BadSchema [OF m] by simp
  from 1 2 3 4 show ?thesis by blast
qed

theorem unknown_codes_warn_type_errors_reject_witness:
  "rest_response_init plain_response_env [(''status_code'', JInt 299)]
     = Inr (\<lparr> self_expected = [(''status_code'', JInt 299)], self_errors = [] \<rparr>, [JInt 299])
   \<and> rest_response_init plain_response_env [(''status_code'', JList [JInt 200, JInt 799])]
     = Inr (\<lparr> self_expected = [(''status_code'', JList [JInt 200, JInt 799])],
              self_errors = [] \<rparr>, [JInt 799])
   \<and> rest_response_init plain_response_env [(''status_code'', JNone)]
     = Inl (BadSchemaError ''Invalid code'')
   \<and> (\<nexists>m. rest_response_init plain_response_env
               [(''status_code'', JList [JStr ''abc'', JNone])] = Inl (BadSchemaError m))"
proof -
  note t = unknown_codes_warn_type_errors_reject [where env = plain_response_env]
  have d: "distinct (map fst [(''status_code'', v)])" for v :: jval
    by simp
  have f: "map_of [(''status_code'', v)] ''status_code'' = Some v" for v :: jval
    by simp
  have codes: "status_codes plain_response_env = [200, 204, 301, 404, 500]"
    and parse: "int_of_str plain_response_env ''abc'' = None"
    by (simp_all add: plain_response_env_def)
  from t [OF d f, of "JInt 299", THEN conjunct1, THEN spec, THEN mp, OF refl]
  have 1: "rest_response_init plain_response_env [(''status_code'', JInt 299)]
     = Inr (\<lparr> self_expected = [(''status_code'', JInt 299)], self_errors = [] \<rparr>, [JInt 299])"
    by (simp add: codes deep_dict_merge_def)
  from t [OF d f, of "JList [JInt 200, JInt 799]", THEN conjunct2, THEN conjunct1, THEN spec,
          of "[200, 799]"]
  have 2: "rest_response_init plain_response_env [(''status_code'', JList [JInt 200, JInt 799])]
     = Inr (\<lparr> self_expected = [(''status_code'', JList [JInt 200, JInt 799])],
              self_errors = [] \<rparr>, [JInt 799])"
    by (simp add: codes deep_dict_merge_def)
  have "\<exists>pre code post. [JNone] = pre @ code # post
          \<and> (\<forall>c\<in>set pre. \<exists>i. py_int (int_of_str plain_response_env) c = Inr i)
          \<and> py_int (int_of_str plain_response_env) code = Inl TypeError"
    by (intro exI [of _ "[]"] exI [of _ JNone]) simp
  with t [OF d f, of JNone, THEN conjunct2, THEN conjunct2, THEN conjunct1]
  obtain m where m: "rest_response_init plain_response_env [(''status_code'', JNone)]
                       = Inl (BadSchemaError m)"
    by auto
  from t [OF d f, of JNone, THEN conjunct2, THEN conjunct2, THEN conjunct2, THEN spec, THEN mp,
          OF m] m
  have 3: "rest_response_init plain_response_env [(''status_code'', JNone)]
     = Inl (BadSchemaError ''Invalid code'')"
    by simp
  have "\<nexists>pre code post. [JStr ''abc'', JNone] = pre @ code # post
          \<and> (\<forall>c\<in>set pre. \<exists>i. py_int (int_of_str plain_response_env) c = Inr i)
          \<and> py_int (int_of_str plain_response_env) code = Inl TypeError"
    by (auto simp: Cons_eq_append_conv parse)
  with t [OF d f, of "JList [JStr ''abc'', JNone]", THEN conjunct2, THEN conjunct2,
          THEN conjunct1]
  have 4: "\<nexists>m. rest_response_init plain_response_env
               [(''status_code'', JList [JStr ''abc'', JNone])] = Inl (BadSchemaError m)"
    by simp
  from 1 2 3 4 show ?thesis by (intro conjI)
qed

subsection \<open>Verification accumulates the errors of every check\<close>

lemma adderr_adderrs: "adderr self e = adderrs self [e]"
  by (simp add: adderr_def adderrs_def)

lemma adderrs_Nil: "adderrs self [] = self"
  by (simp add: adderrs_def)

lemma adderrs_adderrs: "adderrs (adderrs self a) b = adderrs self (a @ b)"
  by (simp add: adderrs_def)

lemma self_expected_adderrs: "self_expected (adderrs self a) = self_expected self"
  by (simp add: adderrs_def)

lemma self_errors_adderrs: "self_errors (adderrs self a) = self_errors self @ a"
  by (simp add: adderrs_def)

lemma get_redirect_query_params_value:
  assumes "case map_of (self_expected self) ''save'' of None \<Rightarrow> True | Some v \<Rightarrow> is_dict v"
  shows "get_redirect_query_params env self response =
     Inr (case header_lookup (response_headers response) ''location'' of
            Some url \<Rightarrow> redirect_query_of env url
          | None \<Rightarrow> [],
          adderrs self
            (if header_lookup (response_headers response) ''location'' = None
                \<and> (case map_of (self_expected self) ''save'' of
                      Some (JDict d) \<Rightarrow> dict_has d ''redirect_query_params''
                    | _ \<Rightarrow> False)
             then [Verr ''Wanted to save %s, but there was no redirect url in response''
                     [Plain (case map_of (self_expected self) ''save'' of
                               Some (JDict d) \<Rightarrow> get_or_none d ''redirect_query_params''
                             | _ \<Rightarrow> JNone)]]
             else []))"
proof (cases "header_lookup (response_headers response) ''location''")
  case (Some url)
  then show ?thesis
    by (simp add: get_redirect_query_params_def adderrs_Nil)
next
  case None
  show ?thesis
  proof (cases "map_of (self_expected self) ''save''")
    case n: None
    with None show ?thesis
      by (simp add: get_redirect_query_params_def adderrs_Nil dict_has_def)
  next
    case (Some v)
    with assms obtain d where "v = JDict d" by (cases v) simp_all
    with None Some show ?thesis
      by (simp add: get_redirect_query_params_def adderrs_Nil adderr_adderrs)
  qed
qed

lemma no_ext_block:
  assumes "map_of expected blockname = Some (JDict d)" and "\<not> dict_has d ''$ext''"
  shows "\<not> truthy (get_or_none d ''$ext'')"
    and "AList.delete ''$ext'' d = d"
    and "AList.update blockname (JDict d) expected = expected"
proof -
  from assms(2) have n: "map_of d ''$ext'' = None" by (simp add: dict_has_def)
  then show "\<not> truthy (get_or_none d ''$ext'')" by (simp add: get_or_none_def)
  from n have "''$ext'' \<notin> fst ` set d" by (simp add: map_of_eq_None_iff)
  then show "AList.delete ''$ext'' d = d" by (rule delete_id)
  from assms(1) show "AList.update blockname (JDict d) expected = expected" by (rule update_triv)
qed

lemma validate_block_plain:
  assumes "blockname \<noteq> ''headers''"
    and "\<forall>d. map_of (self_expected self) blockname = Some (JDict d) \<longrightarrow> \<not> dict_has d ''$ext''"
  shows "validate_block env self blockname block =
           Inr (adderrs self
                  (recurse_check_key_match env (get_or_none (self_expected self) blockname) block
                     blockname (option_for env blockname)))"
proof (cases "\<exists>d. get_or_none (self_expected self) blockname = JDict d")
  case True
  then obtain d where g: "get_or_none (self_expected self) blockname = JDict d" by blast
  then have m: "map_of (self_expected self) blockname = Some (JDict d)"
    by (cases "map_of (self_expected self) blockname") (simp_all add: get_or_none_def)
  with assms(2) have "\<not> dict_has d ''$ext''" by blast
  note n = no_ext_block [OF m this]
  show ?thesis
    unfolding validate_block_def g using assms(1) n
    by (simp add: bind_exn_def)
next
  case False
  with assms(1) show ?thesis
    by (cases "get_or_none (self_expected self) blockname")
       (simp_all add: validate_block_def bind_exn_def)
qed

lemma validate_block_headers:
  assumes "map_of (self_expected self) ''headers'' = Some (JDict e)"
    and "\<not> dict_has e ''$ext''"
  shows "validate_block env self ''headers'' (JDict b) =
           Inr (adderrs self
                  (recurse_check_key_match env (JDict (normalise_headers e))
                     (JDict (normalise_headers b)) ''headers'' (option_for env ''headers'')))"
proof -
  from assms(1) have g: "get_or_none (self_expected self) ''headers'' = JDict e"
    by (simp add: get_or_none_def)
  note n = no_ext_block [OF assms]
  show ?thesis
    unfolding validate_block_def g using n
    by (simp add: bind_exn_def)
qed


lemma check_cookies_value:
  assumes "iterate (case map_of (self_expected self) ''cookies'' of
                      None \<Rightarrow> JList [] | Some v \<Rightarrow> v) = Some expected_cookies"
  shows "check_cookies self response =
           Inr (adderrs self
                 (map (\<lambda>cookie. Verr ''No cookie named '%s' in response'' [Plain cookie])
                    (filter (\<lambda>cookie. cookie_missing cookie (response_cookies response))
                       expected_cookies)))"
  using assms by (simp add: check_cookies_def)

lemma check_status_code_mismatch:
  assumes "map_of (self_expected self) ''status_code'' = Some expected_code"
    and "\<not> (case expected_code of
              JList codes \<Rightarrow> list_ex (py_eq (JInt code)) codes
            | scalar \<Rightarrow> py_eq (JInt code) scalar)"
  shows "check_status_code self (JInt code) body =
           Inr (adderrs self
                  [if 400 \<le> code \<and> code < 500
                   then Verr ''Status code was %s, expected %s:\<newline>%s''
                          [Plain (JInt code), Plain expected_code, Indented_json body]
                   else Verr ''Status code was %s, expected %s''
                          [Plain (JInt code), Plain expected_code]])"
  unfolding check_status_code_value [OF assms(1)] using assms(2)
  by (simp only: if_False adderr_adderrs)

text \<open>
  C2. Let the response have an integer status code that does not match the expected one,
  and let the expected block be well formed: \<open>save\<close> is a dictionary when given, no
  expected block holds \<open>$ext\<close>, the expected headers are a dictionary, the expected
  cookies can be iterated over; and let the response hook return. Then \<open>verify\<close> raises
  \<open>TestFailError\<close> and nothing else, and its failures are, in this order: the errors the
  object had, the error for a missing redirect location (recorded by the logging and again
  by the verification), the status error, the errors of the match of the body, of the
  headers in lower case and of the redirect query parameters, the errors of the external
  validators, of the four extractions of saved values, and one error for every expected
  cookie that the response lacks. So the status error, the header errors and the body
  errors are in one failure, raised after every check has run.
\<close>

theorem verify_accumulates_all_errors:
  assumes E: "self_expected self = expected"
    and save: "case map_of expected ''save'' of None \<Rightarrow> True | Some v \<Rightarrow> is_dict v"
    and hook: "after_every_response env expected response = None"
    and no_ext: "\<forall>blockname d. map_of expected blockname = Some (JDict d)
                   \<longrightarrow> \<not> dict_has d ''$ext''"
    and hdrs: "map_of expected ''headers'' = Some (JDict expected_headers)"
    and cks: "iterate (case map_of expected ''cookies'' of None \<Rightarrow> JList [] | Some v \<Rightarrow> v)
                = Some expected_cookies"
    and code: "response_status_code response = JInt code"
    and exp_code: "map_of expected ''status_code'' = Some expected_code"
    and mismatch: "\<not> (case expected_code of
                        JList codes \<Rightarrow> list_ex (py_eq (JInt code)) codes
                      | scalar \<Rightarrow> py_eq (JInt code) scalar)"
    and body: "body = (case response_json response of None \<Rightarrow> JNone | Some b \<Rightarrow> b)"
    and rqp: "redirect_query_params =
                (case header_lookup (response_headers response) ''location'' of
                   Some url \<Rightarrow> redirect_query_of env url
                 | None \<Rightarrow> [])"
    and nr: "no_redirect =
               (if header_lookup (response_headers response) ''location'' = None
                   \<and> (case map_of expected ''save'' of
                         Some (JDict d) \<Rightarrow> dict_has d ''redirect_query_params''
                       | _ \<Rightarrow> False)
                then [Verr ''Wanted to save %s, but there was no redirect url in response''
                        [Plain (case map_of expected ''save'' of
                                  Some (JDict d) \<Rightarrow> get_or_none d ''redirect_query_params''
                                | _ \<Rightarrow> JNone)]]
                else [])"
  shows "verify env self response =
           Inl (TestFailError
                  (self_errors self @ no_redirect @ no_redirect
                   @ [if 400 \<le> code \<and> code < 500
                      then Verr ''Status code was %s, expected %s:\<newline>%s''
                             [Plain (JInt code), Plain expected_code, Indented_json body]
                      else Verr ''Status code was %s, expected %s''
                             [Plain (JInt code), Plain expected_code]]
                   @ recurse_check_key_match env (get_or_none expected ''json'') body ''json''
                       (option_for env ''json'')
                   @ recurse_check_key_match env (JDict (normalise_headers expected_headers))
                       (JDict (normalise_headers (response_headers response))) ''headers''
                       (option_for env ''headers'')
                   @ recurse_check_key_match env (get_or_none expected ''redirect_query_params'')
                       (JDict redirect_query_params) ''redirect_query_params''
                       (option_for env ''redirect_query_params'')
                   @ maybe_run_validate_functions env expected response
                   @ snd (maybe_get_save_values_from_save_block env expected ''json'' body)
                   @ snd (maybe_get_save_values_from_save_block env expected ''headers''
                            (JDict (response_headers response)))
                   @ snd (maybe_get_save_values_from_save_block env expected
                            ''redirect_query_params'' (JDict redirect_query_params))
                   @ snd (maybe_get_save_values_from_ext env expected response)
                   @ map (\<lambda>cookie. Verr ''No cookie named '%s' in response'' [Plain cookie])
                       (filter (\<lambda>cookie. cookie_missing cookie (response_cookies response))
                          expected_cookies)))"
proof -
  have Ea: "self_expected (adderrs self a) = expected" for a
    by (simp add: self_expected_adderrs E)
  have g: "get_redirect_query_params env (adderrs self a) response
             = Inr (redirect_query_params, adderrs self (a @ no_redirect))" for a
    using get_redirect_query_params_value [of "adderrs self a" env response] save
    by (simp add: Ea rqp nr adderrs_adderrs)
  have l: "verbose_log_response env self response = Inr (adderrs self no_redirect)"
    using g [of "[]"] by (simp add: verbose_log_response_def bind_exn_def adderrs_Nil)
  have c: "check_status_code (adderrs self a) (JInt code) body
             = Inr (adderrs self (a @ [if 400 \<le> code \<and> code < 500
                      then Verr ''Status code was %s, expected %s:\<newline>%s''
                             [Plain (JInt code), Plain expected_code, Indented_json body]
                      else Verr ''Status code was %s, expected %s''
                             [Plain (JInt code), Plain expected_code]]))" for a
    using check_status_code_mismatch [of "adderrs self a" expected_code code body]
      exp_code mismatch
    by (simp only: Ea adderrs_adderrs simp_thms)
  have ne: "\<forall>d. map_of (self_expected (adderrs self a)) blockname = Some (JDict d)
              \<longrightarrow> \<not> dict_has d ''$ext''" for a blockname
    using no_ext by (simp add: Ea)
  have vj: "validate_block env (adderrs self a) ''json'' body
              = Inr (adderrs self (a @ recurse_check_key_match env (get_or_none expected ''json'')
                                        body ''json'' (option_for env ''json'')))" for a
    using validate_block_plain [OF _ ne, of "''json''" env a body]
    by (simp add: Ea adderrs_adderrs)
  have vr: "validate_block env (adderrs self a) ''redirect_query_params''
                (JDict redirect_query_params)
              = Inr (adderrs self
                       (a @ recurse_check_key_match env
                              (get_or_none expected ''redirect_query_params'')
                              (JDict redirect_query_params) ''redirect_query_params''
                              (option_for env ''redirect_query_params'')))" for a
    using validate_block_plain [OF _ ne, of "''redirect_query_params''" env a
        "JDict redirect_query_params"]
    by (simp add: Ea adderrs_adderrs)
  have "\<not> dict_has expected_headers ''$ext''"
    using no_ext hdrs by blast
  then have vh: "validate_block env (adderrs self a) ''headers'' (JDict (response_headers response))
              = Inr (adderrs self
                       (a @ recurse_check_key_match env (JDict (normalise_headers expected_headers))
                              (JDict (normalise_headers (response_headers response))) ''headers''
                              (option_for env ''headers'')))" for a
    using validate_block_headers [of "adderrs self a" expected_headers env
        "response_headers response"] hdrs
    by (simp add: Ea adderrs_adderrs)
  have k: "check_cookies (adderrs self a) response
             = Inr (adderrs self
                      (a @ map (\<lambda>cookie. Verr ''No cookie named '%s' in response'' [Plain cookie])
                             (filter (\<lambda>cookie. cookie_missing cookie (response_cookies response))
                                expected_cookies)))" for a
    using check_cookies_value [of "adderrs self a" expected_cookies response] cks
    by (simp add: Ea adderrs_adderrs)
  show ?thesis
    unfolding verify_def l
    by (simp add: bind_exn_def Let_def split_def Ea hook body [symmetric] code
        g c vj vh vr k adderrs_adderrs self_errors_adderrs)
qed

theorem verify_accumulates_all_errors_witness:
  "verify plain_response_env \<lparr> self_expected = item_expected, self_errors = [] \<rparr>
       not_found_response
     = Inl (TestFailError
              [Verr ''Status code was %s, expected %s:\<newline>%s''
                 [Plain (JInt 404), Plain (JInt 200),
                  Indented_json (JDict [(''error'', JStr ''not found'')])],
               Verr ''json: expected %s, got %s''
                 [Plain (JDict [(''id'', JInt 1)]),
                  Plain (JDict [(''error'', JStr ''not found'')])],
               Verr ''headers: expected %s, got %s''
                 [Plain (JDict [(''content-type'', JStr ''application/json'')]),
                  Plain (JDict [(''content-type'', JStr ''text/html'')])],
               Verr ''No cookie named '%s' in response'' [Plain (JStr ''session_id'')]])"
proof -
  have E: "self_expected \<lparr> self_expected = item_expected, self_errors = [] \<rparr> = item_expected"
    by simp
  have save: "case map_of item_expected ''save'' of None \<Rightarrow> True | Some v \<Rightarrow> is_dict v"
    by (simp add: item_expected_def)
  have hook: "after_every_response plain_response_env item_expected not_found_response = None"
    by (simp add: plain_response_env_def)
  have no_ext: "\<forall>blockname d. map_of item_expected blockname = Some (JDict d)
                   \<longrightarrow> \<not> dict_has d ''$ext''"
    by (auto simp: item_expected_def dict_has_def split: if_splits)
  have hdrs: "map_of item_expected ''headers''
                = Some (JDict [(''Content-Type'', JStr ''application/json'')])"
    by (simp add: item_expected_def)
  have cks: "iterate (case map_of item_expected ''cookies'' of
                        None \<Rightarrow> JList [] | Some v \<Rightarrow> v) = Some [JStr ''session_id'']"
    by (simp add: item_expected_def)
  have code: "response_status_code not_found_response = JInt 404"
    by (simp add: not_found_response_def)
  have exp_code: "map_of item_expected ''status_code'' = Some (JInt 200)"
    by (simp add: item_expected_def)
  have mismatch: "\<not> (case JInt 200 of
                        JList codes \<Rightarrow> list_ex (py_eq (JInt 404)) codes
                      | scalar \<Rightarrow> py_eq (JInt 404) scalar)"
    by (simp add: py_eq_def)
  have body: "JDict [(''error'', JStr ''not found'')]
                = (case response_json not_found_response of None \<Rightarrow> JNone | Some b \<Rightarrow> b)"
    by (simp add: not_found_response_def)
  have rqp: "[] = (case header_lookup (response_headers not_found_response) ''location'' of
                     Some url \<Rightarrow> redirect_query_of plain_response_env url
                   | None \<Rightarrow> [])"
    by (simp add: not_found_response_def header_lookup_def lower_def)
  have nr: "[] = (if header_lookup (response_headers not_found_response) ''location'' = None
                   \<and> (case map_of item_expected ''save'' of
                         Some (JDict d) \<Rightarrow> dict_has d ''redirect_query_params''
                       | _ \<Rightarrow> False)
                then [Verr ''Wanted to save %s, but there was no redirect url in response''
                        [Plain (case map_of item_expected ''save'' of
                                  Some (JDict d) \<Rightarrow> get_or_none d ''redirect_query_params''
                                | _ \<Rightarrow> JNone)]]
                else [])"
    by (simp add: item_expected_def)
  have h1: "normalise_headers [(''Content-Type'', JStr ''application/json'')]
              = [(''content-type'', JStr ''application/json'')]"
    and h2: "normalise_headers (response_headers not_found_response)
              = [(''content-type'', JStr ''text/html'')]"
    by (simp_all add: normalise_headers_def lower_def not_found_response_def)
  have j: "get_or_none item_expected ''json'' = JDict [(''id'', JInt 1)]"
    and r: "get_or_none item_expected ''redirect_query_params'' = JNone"
    by (simp_all add: item_expected_def get_or_none_def)
  have c: "response_cookies not_found_response = []"
    by (simp add: not_found_response_def)
  from verify_accumulates_all_errors
         [OF E save hook no_ext hdrs cks code exp_code mismatch body rqp nr]
  show ?thesis
    unfolding h1 h2 j r c
    by (simp add: plain_response_env_def)
qed

end
